theory Spec2Isabelle
  imports Complex_Main "HOL-Library.Multiset" "HOL-Library.FSet" "HOL-Library.Log_Nat"
begin

section \<open>Loan prepayment simulator and debt repayment optimizer\<close>

text \<open>
  A shallow embedding of \<^verbatim>\<open>src/utils/loanPrepayment.ts\<close> (the function
  \<^verbatim>\<open>calculateLoanPrepaymentImpact\<close> with its helper \<^verbatim>\<open>calculatePMT\<close>) and of the debt
  repayment optimizer that follows it in the same source file
  (\<^verbatim>\<open>calculateLoanInterest\<close>, \<^verbatim>\<open>calculateStrategyInterest\<close>, \<^verbatim>\<open>generateAvalancheOrder\<close>,
  \<^verbatim>\<open>generateSnowballOrder\<close>, \<^verbatim>\<open>calculateBaselineInterest\<close>, \<^verbatim>\<open>optimizeDebtRepayment\<close>).

  Numbers. A TypeScript \<^verbatim>\<open>number\<close> that counts months (\<^verbatim>\<open>loanTenureMonths\<close>,
  \<^verbatim>\<open>prepaymentMonth\<close>, the loop counters) is an \<^typ>\<open>int\<close>; the page that calls the
  simulator builds both fields with \<^verbatim>\<open>parseInt\<close>. A \<^verbatim>\<open>number\<close> that holds an amount
  of money or a rate is a \<^typ>\<open>real\<close>. \<^verbatim>\<open>throw new Error(msg)\<close> is the value
  \<open>Inl (Error msg)\<close>.

  Arithmetic. The source is embedded twice. The first embedding carries the names of the
  source and computes with exact real arithmetic: there is no NaN, no infinity and no
  binary rounding, and \<^verbatim>\<open>Math.pow(x, n)\<close>, only called with a month count \<open>n > 0\<close>, is
  \<open>x ^ nat n\<close>. The second embedding (the same names with the suffix \<open>_fl\<close>, subsection
  Machine arithmetic) follows the source operation by operation and takes the rounding
  \<open>rnd\<close> of the arithmetic as a parameter: every \<^verbatim>\<open>+\<close>, \<^verbatim>\<open>-\<close>, \<^verbatim>\<open>*\<close> and \<^verbatim>\<open>/\<close> between
  amounts is the exact operation followed by \<open>rnd\<close>. With the rounding \<open>binary64\<close> of
  IEEE 754 double precision it computes what the JavaScript runtime computes, as long as
  no operation overflows; with the identity it is the first embedding. Validation, data
  flow, iteration caps and monotonicity are studied in the first embedding; the
  properties that turn on the value of a difference at a threshold (the decision
  policy, the sign of the saving, the month in which the balance reaches the stopping
  threshold) are studied in the second.
\<close>

type_synonym number = real

datatype error = Error string

definition Math_round :: "number \<Rightarrow> number" where
  \<comment> \<open>\<^verbatim>\<open>Math.round\<close>: the nearest integer, a half rounds towards plus infinity.\<close>
  "Math_round x = of_int \<lfloor>x + 1 / 2\<rfloor>"


subsection \<open>The prepayment simulator\<close>

record LoanPrepaymentInput =
  loanPrincipal :: number
  annualInterestRate :: number
  loanTenureMonths :: int
  monthlyEMI :: number
  outstandingPrincipal :: number
  prepaymentAmount :: number
  prepaymentMonth :: int

text \<open>
  The summary is a template string whose holes are filled by \<^verbatim>\<open>toLocaleString\<close>, a
  locale dependent formatter of the JavaScript runtime. The model keeps the four values
  that fill the holes, in the order in which they appear:
  \<^verbatim>\<open>prepaymentAmount\<close>, \<^verbatim>\<open>prepaymentMonth\<close>, \<^verbatim>\<open>Math.round(interestSaved)\<close> and
  \<^verbatim>\<open>tenureReduction\<close>.
\<close>

datatype summary_text = Summary number int number int

record LoanPrepaymentResult =
  interest_before_prepayment :: number
  interest_after_prepayment :: number
  interest_saved :: number
  original_tenure_months :: int
  new_tenure_months :: int
  tenure_reduction_months :: int
  summary :: summary_text

definition calculatePMT :: "number \<Rightarrow> number \<Rightarrow> int \<Rightarrow> number" where
  "calculatePMT principal' monthlyRate tenureMonths =
     (if monthlyRate = 0 then principal' / of_int tenureMonths
      else (principal' * monthlyRate * (1 + monthlyRate) ^ nat tenureMonths)
           / ((1 + monthlyRate) ^ nat tenureMonths - 1))"

text \<open>
  One pass through the body of the \<^verbatim>\<open>while\<close> loop of
  \<^verbatim>\<open>calculateLoanPrepaymentImpact\<close>. The state is
  \<open>(remainingPrincipal, totalInterestPaid, monthsElapsed)\<close>. In the branch that clears the
  loan the source also adjusts the locals \<^verbatim>\<open>principalForMonth\<close> and
  \<^verbatim>\<open>prepaymentThisMonth\<close>; neither is read afterwards, so only the assignment
  \<^verbatim>\<open>remainingPrincipal = 0\<close> is kept.
\<close>

definition prepay_step ::
  "number \<Rightarrow> number \<Rightarrow> number \<Rightarrow> int \<Rightarrow> number \<times> number \<times> int \<Rightarrow> number \<times> number \<times> int" where
  "prepay_step monthlyRate calculatedEMI prepaymentAmt prepaymentMon st =
     (case st of (remainingPrincipal, totalInterestPaid, monthsElapsed) \<Rightarrow>
       let monthsElapsed' = monthsElapsed + 1;
           interestForMonth = remainingPrincipal * monthlyRate;
           totalInterestPaid' = totalInterestPaid + interestForMonth;
           principalForMonth = calculatedEMI - interestForMonth;
           prepaymentThisMonth = (if monthsElapsed' = prepaymentMon then prepaymentAmt else 0)
       in if remainingPrincipal < principalForMonth + prepaymentThisMonth
          then (0, totalInterestPaid', monthsElapsed')
          else (remainingPrincipal - (principalForMonth + prepaymentThisMonth),
                totalInterestPaid', monthsElapsed'))"

function prepay_loop ::
  "number \<Rightarrow> number \<Rightarrow> number \<Rightarrow> int \<Rightarrow> int \<Rightarrow> number \<times> number \<times> int \<Rightarrow> number \<times> number \<times> int" where
  "prepay_loop monthlyRate calculatedEMI prepaymentAmt prepaymentMon SAFE_MAX_MONTHS st =
     (if fst st > 1 \<and> snd (snd st) < SAFE_MAX_MONTHS
      then prepay_loop monthlyRate calculatedEMI prepaymentAmt prepaymentMon SAFE_MAX_MONTHS
             (prepay_step monthlyRate calculatedEMI prepaymentAmt prepaymentMon st)
      else st)"
  by pat_completeness auto
termination
  by (relation "measure (\<lambda>(r, e, a, p, cap, st). nat (cap - snd (snd st)))")
     (auto simp: prepay_step_def Let_def split: prod.splits)

declare prepay_loop.simps [simp del]

definition calculateLoanPrepaymentImpact :: "LoanPrepaymentInput \<Rightarrow> error + LoanPrepaymentResult" where
  "calculateLoanPrepaymentImpact input =
     (if loanPrincipal input \<le> 0 \<or> annualInterestRate input < 0 \<or> loanTenureMonths input \<le> 0
         \<or> prepaymentAmount input \<le> 0 \<or> prepaymentMonth input \<le> 0
         \<or> prepaymentMonth input > loanTenureMonths input
      then Inl (Error ''Invalid input parameters'')
      else
        let monthlyRate = annualInterestRate input / 12 / 100;
            calculatedEMI = calculatePMT (loanPrincipal input) monthlyRate (loanTenureMonths input);
            totalAmountPayable = calculatedEMI * of_int (loanTenureMonths input);
            interestBeforePrepayment = totalAmountPayable - loanPrincipal input;
            SAFE_MAX_MONTHS = loanTenureMonths input * 2;
            final = prepay_loop monthlyRate calculatedEMI (prepaymentAmount input)
                      (prepaymentMonth input) SAFE_MAX_MONTHS (loanPrincipal input, 0, 0);
            interestAfterPrepayment = fst (snd final);
            interestSaved = max 0 (interestBeforePrepayment - interestAfterPrepayment);
            newTenureMonths = snd (snd final);
            tenureReduction = max 0 (loanTenureMonths input - newTenureMonths)
        in Inr \<lparr> interest_before_prepayment = Math_round interestBeforePrepayment,
                 interest_after_prepayment = Math_round interestAfterPrepayment,
                 interest_saved = Math_round interestSaved,
                 original_tenure_months = loanTenureMonths input,
                 new_tenure_months = newTenureMonths,
                 tenure_reduction_months = tenureReduction,
                 summary = Summary (prepaymentAmount input) (prepaymentMonth input)
                             (Math_round interestSaved) tenureReduction \<rparr>)"


subsection \<open>The debt repayment optimizer\<close>

record Loan =
  loan_name :: string
  outstanding_balance :: number
  annual_interest_rate :: number
  monthly_emi :: number

datatype risk = Low | Medium | High

record DebtRepaymentInput =
  loans :: "Loan list"
  monthly_surplus :: "number option"
  risk_tolerance :: "risk option"

datatype strategy = Avalanche | Snowball

text \<open>
  The reason is one of eight template strings; each has one hole, filled with
  \<^verbatim>\<open>Math.round(interestDifference).toLocaleString()\<close>. The model keeps which template
  was chosen and the rounded difference. The constructors follow the order of the
  templates in the source.
\<close>

datatype reason_text =
    AvalancheSavesLow number
  | AvalancheSavesHigh number
  | AvalancheSavesMedium number
  | SnowballSaves number
  | SimilarSnowballLow number
  | SimilarAvalancheHigh number
  | ModestAvalancheMedium number
  | MinimalSnowballMedium number

record DebtRepaymentResult =
  avalanche_order :: "string list"
  snowball_order :: "string list"
  recommended_strategy :: strategy
  reason :: reason_text
  estimated_interest_saved :: number

text \<open>
  \<^verbatim>\<open>calculateLoanInterest\<close>: the state of the loop is
  \<open>(remainingBalance, totalInterest, months)\<close>; the \<^verbatim>\<open>break\<close> leaves the loop with the
  state unchanged.
\<close>

function loan_interest_loop ::
  "number \<Rightarrow> number \<Rightarrow> number \<times> number \<times> int \<Rightarrow> number \<times> number \<times> int" where
  "loan_interest_loop monthlyRate monthlyEMI' st =
     (if fst st > 1 / 100 \<and> snd (snd st) < 600
      then let interestComponent = fst st * monthlyRate;
               principalComponent = monthlyEMI' - interestComponent
           in if principalComponent \<le> 0 then st
              else loan_interest_loop monthlyRate monthlyEMI'
                     (fst st - principalComponent, fst (snd st) + interestComponent,
                      snd (snd st) + 1)
      else st)"
  by pat_completeness auto
termination
  by (relation "measure (\<lambda>(r, e, st). nat (600 - snd (snd st)))") auto

declare loan_interest_loop.simps [simp del]

definition calculateLoanInterest :: "number \<Rightarrow> number \<Rightarrow> number \<Rightarrow> number" where
  "calculateLoanInterest outstandingBalance annualRate monthlyEMI' =
     (let monthlyRate = annualRate / 12 / 100;
          final = loan_interest_loop monthlyRate monthlyEMI' (outstandingBalance, 0, 0)
      in Math_round (fst (snd final) * 100) / 100)"

text \<open>
  \<^verbatim>\<open>calculateStrategyInterest\<close>. \<^verbatim>\<open>balances\<close> is a \<^verbatim>\<open>Map\<close> from loan name to
  remaining balance (built from the loans in order, so of two loans with one name the
  later one sets the entry); \<^verbatim>\<open>paidOffLoans\<close> is a \<^verbatim>\<open>Set\<close> of names, a finite set.
  \<^verbatim>\<open>balances.get(name) || 0\<close> is 0 for a missing key.
\<close>

type_synonym balances = "string \<rightharpoonup> number"

definition initial_balances :: "Loan list \<Rightarrow> balances" where
  "initial_balances ls = foldl (\<lambda>m loan. m(loan_name loan \<mapsto> outstanding_balance loan)) Map.empty ls"

definition freed_up_extra :: "Loan list \<Rightarrow> string fset \<Rightarrow> number \<Rightarrow> number" where
  \<comment> \<open>the first \<^verbatim>\<open>for\<close> loop of a month: the surplus plus the EMI of every paid off loan\<close>
  "freed_up_extra ls paidOffLoans monthlySurplus =
     foldl (\<lambda>availableExtra loan.
              if loan_name loan |\<in>| paidOffLoans then availableExtra + monthly_emi loan
              else availableExtra) monthlySurplus ls"

text \<open>
  The body of the second \<^verbatim>\<open>for\<close> loop of a month, for one loan. The state is
  \<open>(balances, paidOffLoans, totalInterest, availableExtra)\<close>.
\<close>

definition pay_loan ::
  "string \<Rightarrow> Loan \<Rightarrow> balances \<times> string fset \<times> number \<times> number
     \<Rightarrow> balances \<times> string fset \<times> number \<times> number" where
  "pay_loan currentPriorityLoanName loan st =
     (case st of (bals, paidOffLoans, totalInterest, availableExtra) \<Rightarrow>
       if loan_name loan |\<in>| paidOffLoans then st
       else
         let balance = (case bals (loan_name loan) of None \<Rightarrow> 0 | Some b \<Rightarrow> b)
         in if balance \<le> 1 / 100
            then (bals, finsert (loan_name loan) paidOffLoans, totalInterest, availableExtra)
            else
              let monthlyRate = annual_interest_rate loan / 12 / 100;
                  interestComponent = balance * monthlyRate;
                  totalInterest' = totalInterest + interestComponent;
                  principalFromEMI = min (monthly_emi loan - interestComponent) balance;
                  newBalance = balance - principalFromEMI;
                  applyExtra = (loan_name loan = currentPriorityLoanName
                                \<and> availableExtra > 0 \<and> newBalance > 1 / 100);
                  extraPayment = min availableExtra newBalance;
                  newBalance' = (if applyExtra then newBalance - extraPayment else newBalance);
                  availableExtra' = (if applyExtra then availableExtra - extraPayment
                                     else availableExtra);
                  bals' = bals(loan_name loan \<mapsto> max 0 newBalance');
                  paidOffLoans' = (if newBalance' \<le> 1 / 100
                                   then finsert (loan_name loan) paidOffLoans else paidOffLoans)
              in (bals', paidOffLoans', totalInterest', availableExtra'))"

text \<open>
  The \<^verbatim>\<open>while\<close> loop over months. \<^verbatim>\<open>repaymentOrder.find\<close> gives the first name that
  is not paid off; the loop is left when there is none, and also when that name is the
  empty string, which is falsy in JavaScript. The state is
  \<open>(balances, paidOffLoans, totalInterest, months)\<close>.
\<close>

function strategy_loop ::
  "Loan list \<Rightarrow> string list \<Rightarrow> number \<Rightarrow> balances \<times> string fset \<times> number \<times> int
     \<Rightarrow> balances \<times> string fset \<times> number \<times> int" where
  "strategy_loop ls repaymentOrder monthlySurplus st =
     (case st of (bals, paidOffLoans, totalInterest, months) \<Rightarrow>
       if fcard paidOffLoans < length ls \<and> months < 600
       then (case find (\<lambda>name. name |\<notin>| paidOffLoans) repaymentOrder of
               None \<Rightarrow> st
             | Some currentPriorityLoanName \<Rightarrow>
                 if currentPriorityLoanName = [] then st
                 else
                   let availableExtra = freed_up_extra ls paidOffLoans monthlySurplus;
                       st' = fold (pay_loan currentPriorityLoanName) ls
                               (bals, paidOffLoans, totalInterest, availableExtra)
                   in strategy_loop ls repaymentOrder monthlySurplus
                        (fst st', fst (snd st'), fst (snd (snd st')), months + 1))
       else st)"
  by pat_completeness auto
termination
  by (relation "measure (\<lambda>(ls, ord, sur, st). nat (600 - snd (snd (snd st))))") auto

declare strategy_loop.simps [simp del]

definition calculateStrategyInterest :: "Loan list \<Rightarrow> string list \<Rightarrow> number \<Rightarrow> number" where
  "calculateStrategyInterest ls repaymentOrder monthlySurplus =
     (let final = strategy_loop ls repaymentOrder monthlySurplus
                    (initial_balances ls, {||}, 0, 0)
      in Math_round (fst (snd (snd final)) * 100) / 100)"

text \<open>
  \<^verbatim>\<open>Array.prototype.sort\<close> with a comparator belongs to the JavaScript runtime.
  ECMAScript requires it to be stable and, for a comparator that is a consistent
  ordering, fixes its result: the stable sort. It is modelled as the insertion sort
  that puts an element before the first later element that does not have to precede it
  (\<open>cmp a b \<le> 0\<close>: a negative result puts \<open>a\<close> first, zero keeps the original order).
\<close>

fun insert_by :: "('a \<Rightarrow> 'a \<Rightarrow> number) \<Rightarrow> 'a \<Rightarrow> 'a list \<Rightarrow> 'a list" where
  "insert_by cmp a [] = [a]"
| "insert_by cmp a (b # bs) = (if cmp a b \<le> 0 then a # b # bs else b # insert_by cmp a bs)"

definition Array_sort :: "('a \<Rightarrow> 'a \<Rightarrow> number) \<Rightarrow> 'a list \<Rightarrow> 'a list" where
  "Array_sort cmp xs = foldr (insert_by cmp) xs []"

definition avalanche_compare :: "Loan \<Rightarrow> Loan \<Rightarrow> number" where
  "avalanche_compare a b =
     (if annual_interest_rate b \<noteq> annual_interest_rate a
      then annual_interest_rate b - annual_interest_rate a
      else outstanding_balance b - outstanding_balance a)"

definition generateAvalancheOrder :: "Loan list \<Rightarrow> string list" where
  "generateAvalancheOrder ls = map loan_name (Array_sort avalanche_compare ls)"

definition snowball_compare :: "Loan \<Rightarrow> Loan \<Rightarrow> number" where
  "snowball_compare a b =
     (if outstanding_balance a \<noteq> outstanding_balance b
      then outstanding_balance a - outstanding_balance b
      else annual_interest_rate b - annual_interest_rate a)"

definition generateSnowballOrder :: "Loan list \<Rightarrow> string list" where
  "generateSnowballOrder ls = map loan_name (Array_sort snowball_compare ls)"

definition calculateBaselineInterest :: "Loan list \<Rightarrow> number" where
  "calculateBaselineInterest ls =
     foldl (\<lambda>total loan. total + calculateLoanInterest (outstanding_balance loan)
                                    (annual_interest_rate loan) (monthly_emi loan)) 0 ls"

definition invalid_loan :: "Loan \<Rightarrow> bool" where
  "invalid_loan loan \<longleftrightarrow>
     loan_name loan = [] \<or> outstanding_balance loan \<le> 0 \<or> annual_interest_rate loan < 0
       \<or> monthly_emi loan \<le> 0"

text \<open>
  The decision of \<^verbatim>\<open>optimizeDebtRepayment\<close>, from the two simulated interests and the
  risk tolerance: the recommended strategy and the reason.
\<close>

definition decide :: "number \<Rightarrow> number \<Rightarrow> risk \<Rightarrow> strategy \<times> reason_text" where
  "decide avalancheInterest snowballInterest riskTol =
     (let interestDifference = \<bar>avalancheInterest - snowballInterest\<bar>;
          significantDifference =
            (interestDifference > min avalancheInterest snowballInterest * (5 / 100));
          shown = Math_round interestDifference
      in if avalancheInterest < snowballInterest \<and> significantDifference
         then (Avalanche,
               if riskTol = Low then AvalancheSavesLow shown
               else if riskTol = High then AvalancheSavesHigh shown
               else AvalancheSavesMedium shown)
         else if snowballInterest < avalancheInterest \<and> significantDifference
         then (Snowball, SnowballSaves shown)
         else if riskTol = Low then (Snowball, SimilarSnowballLow shown)
         else if riskTol = High then (Avalanche, SimilarAvalancheHigh shown)
         else if avalancheInterest \<le> snowballInterest
         then (Avalanche, ModestAvalancheMedium shown)
         else (Snowball, MinimalSnowballMedium shown))"

definition optimizeDebtRepayment :: "DebtRepaymentInput \<Rightarrow> error + DebtRepaymentResult" where
  "optimizeDebtRepayment input =
     (let ls = loans input;
          surplus = (case monthly_surplus input of None \<Rightarrow> 0 | Some s \<Rightarrow> s);
          riskTol = (case risk_tolerance input of None \<Rightarrow> Medium | Some r \<Rightarrow> r)
      in if length ls = 0 then Inl (Error ''At least one loan is required'')
         else if list_ex invalid_loan ls then Inl (Error ''Invalid loan data'')
         else
           let avalancheOrder = generateAvalancheOrder ls;
               snowballOrder = generateSnowballOrder ls;
               avalancheInterest = calculateStrategyInterest ls avalancheOrder surplus;
               snowballInterest = calculateStrategyInterest ls snowballOrder surplus;
               baselineInterest = calculateBaselineInterest ls;
               avalancheSavings = baselineInterest - avalancheInterest;
               snowballSavings = baselineInterest - snowballInterest;
               decision = decide avalancheInterest snowballInterest riskTol;
               recommendedStrategy = fst decision;
               estimatedInterestSaved =
                 (if recommendedStrategy = Avalanche then avalancheSavings else snowballSavings)
           in Inr \<lparr> avalanche_order = avalancheOrder,
                    snowball_order = snowballOrder,
                    recommended_strategy = recommendedStrategy,
                    reason = snd decision,
                    estimated_interest_saved = Math_round (estimatedInterestSaved * 100) / 100 \<rparr>)"


subsection \<open>Valid inputs\<close>

text \<open>
  The inputs that pass the validation at the top of each entry point. The optional
  fields \<^verbatim>\<open>monthly_surplus\<close> and \<^verbatim>\<open>risk_tolerance\<close> are not validated by the source.
\<close>

definition valid_prepayment_input :: "LoanPrepaymentInput \<Rightarrow> bool" where
  "valid_prepayment_input i \<longleftrightarrow>
     loanPrincipal i > 0 \<and> annualInterestRate i \<ge> 0 \<and> loanTenureMonths i > 0
       \<and> prepaymentAmount i > 0 \<and> prepaymentMonth i > 0
       \<and> prepaymentMonth i \<le> loanTenureMonths i"

definition valid_loan :: "Loan \<Rightarrow> bool" where
  "valid_loan l \<longleftrightarrow>
     loan_name l \<noteq> [] \<and> outstanding_balance l > 0 \<and> annual_interest_rate l \<ge> 0
       \<and> monthly_emi l > 0"

definition valid_debt_input :: "DebtRepaymentInput \<Rightarrow> bool" where
  "valid_debt_input d \<longleftrightarrow> loans d \<noteq> [] \<and> list_all valid_loan (loans d)"

definition surplus_of :: "DebtRepaymentInput \<Rightarrow> number" where
  \<comment> \<open>the default of the destructuring: \<^verbatim>\<open>monthly_surplus = 0\<close>\<close>
  "surplus_of d = (case monthly_surplus d of None \<Rightarrow> 0 | Some s \<Rightarrow> s)"



text \<open>
  The two orderings as the specification words them (section 4.2, step 1): when a loan
  may stand before another one in the avalanche order and in the snowball order.
\<close>

definition avalanche_before :: "Loan \<Rightarrow> Loan \<Rightarrow> bool" where
  "avalanche_before a b \<longleftrightarrow>
     annual_interest_rate a > annual_interest_rate b
       \<or> (annual_interest_rate a = annual_interest_rate b
           \<and> outstanding_balance a \<ge> outstanding_balance b)"

definition snowball_before :: "Loan \<Rightarrow> Loan \<Rightarrow> bool" where
  "snowball_before a b \<longleftrightarrow>
     outstanding_balance a < outstanding_balance b
       \<or> (outstanding_balance a = outstanding_balance b
           \<and> annual_interest_rate a \<ge> annual_interest_rate b)"


subsection \<open>Machine arithmetic\<close>

text \<open>
  IEEE 754 double precision, round to nearest, ties to even, for a real that does not
  overflow. \<open>binade x\<close> is the exponent \<open>e\<close> with \<open>2 ^ e \<le> |x| < 2 ^ (e + 1)\<close>, computed
  from the integer part of \<open>|x|\<close> or of \<open>1 / |x|\<close>. A double of that binade is a multiple
  of \<open>2 ^ (e - 52)\<close>, a subnormal one a multiple of \<open>2 ^ (- 1074)\<close>; \<open>binary64 x\<close> is the
  nearest multiple, the even one of two that are equally near. Infinities, NaN and the
  sign of zero are not modelled.
\<close>

definition round_half_even :: "real \<Rightarrow> int" where
  "round_half_even y =
     (let f = \<lfloor>y\<rfloor>; d = y - of_int f
      in if d < 1 / 2 then f else if d > 1 / 2 then f + 1 else if even f then f else f + 1)"

definition binade :: "real \<Rightarrow> int" where
  "binade x =
     (if 1 \<le> \<bar>x\<bar> then int (floorlog 2 (nat \<lfloor>\<bar>x\<bar>\<rfloor>)) - 1
      else - int (floorlog 2 (nat (\<lceil>1 / \<bar>x\<bar>\<rceil> - 1))))"

definition binary64 :: "real \<Rightarrow> real" where
  "binary64 x =
     (if x = 0 then 0
      else let u = 2 powi (max (binade x) (- 1022) - 52)
           in of_int (round_half_even (x / u)) * u)"

definition pow_binary64 :: "real \<Rightarrow> int \<Rightarrow> real" where
  \<comment> \<open>a \<^verbatim>\<open>Math.pow\<close> that returns the double nearest to the power\<close>
  "pow_binary64 x n = binary64 (x ^ nat n)"

text \<open>
  What the proofs below use of a rounding: it keeps 0, it is monotone, and it keeps
  the values it produces.
\<close>

definition rounding :: "(real \<Rightarrow> real) \<Rightarrow> bool" where
  "rounding rnd \<longleftrightarrow>
     rnd 0 = 0 \<and> (\<forall>x y. x \<le> y \<longrightarrow> rnd x \<le> rnd y) \<and> (\<forall>x. rnd (rnd x) = rnd x)"

text \<open>
  The prepayment simulator. \<^verbatim>\<open>principal * monthlyRate * Math.pow(..)\<close> associates to
  the left. \<^verbatim>\<open>Math.pow\<close> is a parameter: ECMAScript leaves its precision to the
  implementation. Comparisons, \<^verbatim>\<open>Math.max\<close>, \<^verbatim>\<open>Math.min\<close>, \<^verbatim>\<open>Math.abs\<close> and
  \<^verbatim>\<open>Math.round\<close> are exact on the values they are given; the month counters are
  integers and the product \<^verbatim>\<open>loanTenureMonths * 2\<close> is exact.
\<close>

definition calculatePMT_fl ::
  "(real \<Rightarrow> real) \<Rightarrow> (real \<Rightarrow> int \<Rightarrow> real) \<Rightarrow> number \<Rightarrow> number \<Rightarrow> int \<Rightarrow> number" where
  "calculatePMT_fl rnd Math_pow principal' monthlyRate tenureMonths =
     (if monthlyRate = 0 then rnd (principal' / of_int tenureMonths)
      else rnd (rnd (rnd (principal' * monthlyRate)
                     * Math_pow (rnd (1 + monthlyRate)) tenureMonths)
                / rnd (Math_pow (rnd (1 + monthlyRate)) tenureMonths - 1)))"

definition prepay_step_fl ::
  "(real \<Rightarrow> real) \<Rightarrow> number \<Rightarrow> number \<Rightarrow> number \<Rightarrow> int
     \<Rightarrow> number \<times> number \<times> int \<Rightarrow> number \<times> number \<times> int" where
  "prepay_step_fl rnd monthlyRate calculatedEMI prepaymentAmt prepaymentMon st =
     (case st of (remainingPrincipal, totalInterestPaid, monthsElapsed) \<Rightarrow>
       let monthsElapsed' = monthsElapsed + 1;
           interestForMonth = rnd (remainingPrincipal * monthlyRate);
           totalInterestPaid' = rnd (totalInterestPaid + interestForMonth);
           principalForMonth = rnd (calculatedEMI - interestForMonth);
           prepaymentThisMonth = (if monthsElapsed' = prepaymentMon then prepaymentAmt else 0);
           payment = rnd (principalForMonth + prepaymentThisMonth)
       in if remainingPrincipal < payment
          then (0, totalInterestPaid', monthsElapsed')
          else (rnd (remainingPrincipal - payment), totalInterestPaid', monthsElapsed'))"

function prepay_loop_fl ::
  "(real \<Rightarrow> real) \<Rightarrow> number \<Rightarrow> number \<Rightarrow> number \<Rightarrow> int \<Rightarrow> int
     \<Rightarrow> number \<times> number \<times> int \<Rightarrow> number \<times> number \<times> int" where
  "prepay_loop_fl rnd monthlyRate calculatedEMI prepaymentAmt prepaymentMon SAFE_MAX_MONTHS st =
     (if fst st > 1 \<and> snd (snd st) < SAFE_MAX_MONTHS
      then prepay_loop_fl rnd monthlyRate calculatedEMI prepaymentAmt prepaymentMon
             SAFE_MAX_MONTHS
             (prepay_step_fl rnd monthlyRate calculatedEMI prepaymentAmt prepaymentMon st)
      else st)"
  by pat_completeness auto
termination
  by (relation "measure (\<lambda>(f, r, e, a, p, cap, st). nat (cap - snd (snd st)))")
     (auto simp: prepay_step_fl_def Let_def split: prod.splits)

declare prepay_loop_fl.simps [simp del]

definition calculateLoanPrepaymentImpact_fl ::
  "(real \<Rightarrow> real) \<Rightarrow> (real \<Rightarrow> int \<Rightarrow> real) \<Rightarrow> LoanPrepaymentInput
     \<Rightarrow> error + LoanPrepaymentResult" where
  "calculateLoanPrepaymentImpact_fl rnd Math_pow input =
     (if loanPrincipal input \<le> 0 \<or> annualInterestRate input < 0 \<or> loanTenureMonths input \<le> 0
         \<or> prepaymentAmount input \<le> 0 \<or> prepaymentMonth input \<le> 0
         \<or> prepaymentMonth input > loanTenureMonths input
      then Inl (Error ''Invalid input parameters'')
      else
        let monthlyRate = rnd (rnd (annualInterestRate input / 12) / 100);
            calculatedEMI = calculatePMT_fl rnd Math_pow (loanPrincipal input) monthlyRate
                              (loanTenureMonths input);
            totalAmountPayable = rnd (calculatedEMI * of_int (loanTenureMonths input));
            interestBeforePrepayment = rnd (totalAmountPayable - loanPrincipal input);
            SAFE_MAX_MONTHS = loanTenureMonths input * 2;
            final = prepay_loop_fl rnd monthlyRate calculatedEMI (prepaymentAmount input)
                      (prepaymentMonth input) SAFE_MAX_MONTHS (loanPrincipal input, 0, 0);
            interestAfterPrepayment = fst (snd final);
            interestSaved = max 0 (rnd (interestBeforePrepayment - interestAfterPrepayment));
            newTenureMonths = snd (snd final);
            tenureReduction = max 0 (loanTenureMonths input - newTenureMonths)
        in Inr \<lparr> interest_before_prepayment = Math_round interestBeforePrepayment,
                 interest_after_prepayment = Math_round interestAfterPrepayment,
                 interest_saved = Math_round interestSaved,
                 original_tenure_months = loanTenureMonths input,
                 new_tenure_months = newTenureMonths,
                 tenure_reduction_months = tenureReduction,
                 summary = Summary (prepaymentAmount input) (prepaymentMonth input)
                             (Math_round interestSaved) tenureReduction \<rparr>)"

text \<open>
  The debt repayment optimizer. The literals \<^verbatim>\<open>0.01\<close> and \<^verbatim>\<open>0.05\<close> are the roundings
  of \<open>1 / 100\<close> and \<open>5 / 100\<close>; \<^verbatim>\<open>Math.round(x * 100) / 100\<close> rounds the product and the
  quotient.
\<close>

definition monthly_rate_fl :: "(real \<Rightarrow> real) \<Rightarrow> number \<Rightarrow> number" where
  \<comment> \<open>\<^verbatim>\<open>annualInterestRate / 12 / 100\<close>, each division rounded\<close>
  "monthly_rate_fl rnd annualRate = rnd (rnd (annualRate / 12) / 100)"

function loan_interest_loop_fl ::
  "(real \<Rightarrow> real) \<Rightarrow> number \<Rightarrow> number \<Rightarrow> number \<times> number \<times> int \<Rightarrow> number \<times> number \<times> int" where
  "loan_interest_loop_fl rnd monthlyRate monthlyEMI' st =
     (if fst st > rnd (1 / 100) \<and> snd (snd st) < 600
      then let interestComponent = rnd (fst st * monthlyRate);
               principalComponent = rnd (monthlyEMI' - interestComponent)
           in if principalComponent \<le> 0 then st
              else loan_interest_loop_fl rnd monthlyRate monthlyEMI'
                     (rnd (fst st - principalComponent),
                      rnd (fst (snd st) + interestComponent), snd (snd st) + 1)
      else st)"
  by pat_completeness auto
termination
  by (relation "measure (\<lambda>(f, r, e, st). nat (600 - snd (snd st)))") auto

declare loan_interest_loop_fl.simps [simp del]

definition calculateLoanInterest_fl ::
  "(real \<Rightarrow> real) \<Rightarrow> number \<Rightarrow> number \<Rightarrow> number \<Rightarrow> number" where
  "calculateLoanInterest_fl rnd outstandingBalance annualRate monthlyEMI' =
     (let monthlyRate = monthly_rate_fl rnd annualRate;
          final = loan_interest_loop_fl rnd monthlyRate monthlyEMI' (outstandingBalance, 0, 0)
      in rnd (Math_round (rnd (fst (snd final) * 100)) / 100))"

definition freed_up_extra_fl :: "(real \<Rightarrow> real) \<Rightarrow> Loan list \<Rightarrow> string fset \<Rightarrow> number \<Rightarrow> number" where
  "freed_up_extra_fl rnd ls paidOffLoans monthlySurplus =
     foldl (\<lambda>availableExtra loan.
              if loan_name loan |\<in>| paidOffLoans then rnd (availableExtra + monthly_emi loan)
              else availableExtra) monthlySurplus ls"

definition pay_loan_fl ::
  "(real \<Rightarrow> real) \<Rightarrow> string \<Rightarrow> Loan \<Rightarrow> balances \<times> string fset \<times> number \<times> number
     \<Rightarrow> balances \<times> string fset \<times> number \<times> number" where
  "pay_loan_fl rnd currentPriorityLoanName loan st =
     (case st of (bals, paidOffLoans, totalInterest, availableExtra) \<Rightarrow>
       if loan_name loan |\<in>| paidOffLoans then st
       else
         let balance = (case bals (loan_name loan) of None \<Rightarrow> 0 | Some b \<Rightarrow> b)
         in if balance \<le> rnd (1 / 100)
            then (bals, finsert (loan_name loan) paidOffLoans, totalInterest, availableExtra)
            else
              let monthlyRate = monthly_rate_fl rnd (annual_interest_rate loan);
                  interestComponent = rnd (balance * monthlyRate);
                  totalInterest' = rnd (totalInterest + interestComponent);
                  principalFromEMI = min (rnd (monthly_emi loan - interestComponent)) balance;
                  newBalance = rnd (balance - principalFromEMI);
                  applyExtra = (loan_name loan = currentPriorityLoanName
                                \<and> availableExtra > 0 \<and> newBalance > rnd (1 / 100));
                  extraPayment = min availableExtra newBalance;
                  newBalance' = (if applyExtra then rnd (newBalance - extraPayment)
                                 else newBalance);
                  availableExtra' = (if applyExtra then rnd (availableExtra - extraPayment)
                                     else availableExtra);
                  bals' = bals(loan_name loan \<mapsto> max 0 newBalance');
                  paidOffLoans' = (if newBalance' \<le> rnd (1 / 100)
                                   then finsert (loan_name loan) paidOffLoans else paidOffLoans)
              in (bals', paidOffLoans', totalInterest', availableExtra'))"

function strategy_loop_fl ::
  "(real \<Rightarrow> real) \<Rightarrow> Loan list \<Rightarrow> string list \<Rightarrow> number
     \<Rightarrow> balances \<times> string fset \<times> number \<times> int
     \<Rightarrow> balances \<times> string fset \<times> number \<times> int" where
  "strategy_loop_fl rnd ls repaymentOrder monthlySurplus st =
     (case st of (bals, paidOffLoans, totalInterest, months) \<Rightarrow>
       if fcard paidOffLoans < length ls \<and> months < 600
       then (case find (\<lambda>name. name |\<notin>| paidOffLoans) repaymentOrder of
               None \<Rightarrow> st
             | Some currentPriorityLoanName \<Rightarrow>
                 if currentPriorityLoanName = [] then st
                 else
                   let availableExtra = freed_up_extra_fl rnd ls paidOffLoans monthlySurplus;
                       st' = fold (pay_loan_fl rnd currentPriorityLoanName) ls
                               (bals, paidOffLoans, totalInterest, availableExtra)
                   in strategy_loop_fl rnd ls repaymentOrder monthlySurplus
                        (fst st', fst (snd st'), fst (snd (snd st')), months + 1))
       else st)"
  by pat_completeness auto
termination
  by (relation "measure (\<lambda>(f, ls, ord, sur, st). nat (600 - snd (snd (snd st))))") auto

declare strategy_loop_fl.simps [simp del]

definition calculateStrategyInterest_fl ::
  "(real \<Rightarrow> real) \<Rightarrow> Loan list \<Rightarrow> string list \<Rightarrow> number \<Rightarrow> number" where
  "calculateStrategyInterest_fl rnd ls repaymentOrder monthlySurplus =
     (let final = strategy_loop_fl rnd ls repaymentOrder monthlySurplus
                    (initial_balances ls, {||}, 0, 0)
      in rnd (Math_round (rnd (fst (snd (snd final)) * 100)) / 100))"

definition avalanche_compare_fl :: "(real \<Rightarrow> real) \<Rightarrow> Loan \<Rightarrow> Loan \<Rightarrow> number" where
  "avalanche_compare_fl rnd a b =
     (if annual_interest_rate b \<noteq> annual_interest_rate a
      then rnd (annual_interest_rate b - annual_interest_rate a)
      else rnd (outstanding_balance b - outstanding_balance a))"

definition snowball_compare_fl :: "(real \<Rightarrow> real) \<Rightarrow> Loan \<Rightarrow> Loan \<Rightarrow> number" where
  "snowball_compare_fl rnd a b =
     (if outstanding_balance a \<noteq> outstanding_balance b
      then rnd (outstanding_balance a - outstanding_balance b)
      else rnd (annual_interest_rate b - annual_interest_rate a))"

definition generateAvalancheOrder_fl :: "(real \<Rightarrow> real) \<Rightarrow> Loan list \<Rightarrow> string list" where
  "generateAvalancheOrder_fl rnd ls = map loan_name (Array_sort (avalanche_compare_fl rnd) ls)"

definition generateSnowballOrder_fl :: "(real \<Rightarrow> real) \<Rightarrow> Loan list \<Rightarrow> string list" where
  "generateSnowballOrder_fl rnd ls = map loan_name (Array_sort (snowball_compare_fl rnd) ls)"

definition calculateBaselineInterest_fl :: "(real \<Rightarrow> real) \<Rightarrow> Loan list \<Rightarrow> number" where
  "calculateBaselineInterest_fl rnd ls =
     foldl (\<lambda>total' loan. rnd (total' + calculateLoanInterest_fl rnd (outstanding_balance loan)
                                    (annual_interest_rate loan) (monthly_emi loan))) 0 ls"

definition decide_fl :: "(real \<Rightarrow> real) \<Rightarrow> number \<Rightarrow> number \<Rightarrow> risk \<Rightarrow> strategy \<times> reason_text" where
  "decide_fl rnd avalancheInterest snowballInterest riskTol =
     (let interestDifference = \<bar>rnd (avalancheInterest - snowballInterest)\<bar>;
          significantDifference =
            (interestDifference > rnd (min avalancheInterest snowballInterest * rnd (5 / 100)));
          shown = Math_round interestDifference
      in if avalancheInterest < snowballInterest \<and> significantDifference
         then (Avalanche,
               if riskTol = Low then AvalancheSavesLow shown
               else if riskTol = High then AvalancheSavesHigh shown
               else AvalancheSavesMedium shown)
         else if snowballInterest < avalancheInterest \<and> significantDifference
         then (Snowball, SnowballSaves shown)
         else if riskTol = Low then (Snowball, SimilarSnowballLow shown)
         else if riskTol = High then (Avalanche, SimilarAvalancheHigh shown)
         else if avalancheInterest \<le> snowballInterest
         then (Avalanche, ModestAvalancheMedium shown)
         else (Snowball, MinimalSnowballMedium shown))"

definition optimizeDebtRepayment_fl ::
  "(real \<Rightarrow> real) \<Rightarrow> DebtRepaymentInput \<Rightarrow> error + DebtRepaymentResult" where
  "optimizeDebtRepayment_fl rnd input =
     (let ls = loans input;
          surplus = (case monthly_surplus input of None \<Rightarrow> 0 | Some s \<Rightarrow> s);
          riskTol = (case risk_tolerance input of None \<Rightarrow> Medium | Some r \<Rightarrow> r)
      in if length ls = 0 then Inl (Error ''At least one loan is required'')
         else if list_ex invalid_loan ls then Inl (Error ''Invalid loan data'')
         else
           let avalancheOrder = generateAvalancheOrder_fl rnd ls;
               snowballOrder = generateSnowballOrder_fl rnd ls;
               avalancheInterest = calculateStrategyInterest_fl rnd ls avalancheOrder surplus;
               snowballInterest = calculateStrategyInterest_fl rnd ls snowballOrder surplus;
               baselineInterest = calculateBaselineInterest_fl rnd ls;
               avalancheSavings = rnd (baselineInterest - avalancheInterest);
               snowballSavings = rnd (baselineInterest - snowballInterest);
               decision = decide_fl rnd avalancheInterest snowballInterest riskTol;
               recommendedStrategy = fst decision;
               estimatedInterestSaved =
                 (if recommendedStrategy = Avalanche then avalancheSavings else snowballSavings)
           in Inr \<lparr> avalanche_order = avalancheOrder,
                    snowball_order = snowballOrder,
                    recommended_strategy = recommendedStrategy,
                    reason = snd decision,
                    estimated_interest_saved =
                      rnd (Math_round (rnd (estimatedInterestSaved * 100)) / 100) \<rparr>)"



section \<open>Properties of the prepayment simulator\<close>

subsection \<open>The loop\<close>

lemma prepay_loop_stop:
  "\<not> (fst st > 1 \<and> snd (snd st) < cap) \<Longrightarrow> prepay_loop r e a p cap st = st"
  by (subst prepay_loop.simps) auto

lemma prepay_loop_continue:
  "fst st > 1 \<Longrightarrow> snd (snd st) < cap \<Longrightarrow>
     prepay_loop r e a p cap st = prepay_loop r e a p cap (prepay_step r e a p st)"
  by (subst prepay_loop.simps) auto

lemma prepay_step_months [simp]:
  "snd (snd (prepay_step r e a p st)) = snd (snd st) + 1"
  by (simp add: prepay_step_def Let_def split: prod.splits)

lemma prepay_step_total [simp]:
  "fst (snd (prepay_step r e a p st)) = fst (snd st) + fst st * r"
  by (simp add: prepay_step_def Let_def split: prod.splits)

lemma prepay_step_remaining:
  "fst (prepay_step r e a p st) =
     max 0 (fst st * (1 + r) - e - (if snd (snd st) + 1 = p then a else 0))"
  by (simp add: prepay_step_def Let_def algebra_simps split: prod.splits)

lemma prepay_loop_months_le:
  "snd (snd st) \<le> cap \<Longrightarrow> snd (snd (prepay_loop r e a p cap st)) \<le> cap"
proof (induction r e a p cap st rule: prepay_loop.induct)
  case (1 r e a p cap st)
  show ?case
  proof (cases "fst st > 1 \<and> snd (snd st) < cap")
    case True
    then have "snd (snd (prepay_step r e a p st)) \<le> cap" by simp
    with True "1.IH" show ?thesis by (simp add: prepay_loop_continue)
  next
    case False
    with "1.prems" show ?thesis by (simp add: prepay_loop_stop)
  qed
qed

lemma prepay_loop_months_ge:
  "snd (snd st) \<le> snd (snd (prepay_loop r e a p cap st))"
proof (induction r e a p cap st rule: prepay_loop.induct)
  case (1 r e a p cap st)
  show ?case
  proof (cases "fst st > 1 \<and> snd (snd st) < cap")
    case True
    with "1.IH" show ?thesis by (simp add: prepay_loop_continue)
  next
    case False
    then show ?thesis by (simp add: prepay_loop_stop)
  qed
qed


lemma Math_round_0 [simp]: "Math_round 0 = 0"
  by (simp add: Math_round_def)


lemma Math_round_mono: "x \<le> y \<Longrightarrow> Math_round x \<le> Math_round y"
  unfolding Math_round_def by (simp add: floor_mono)




text \<open>The result of a valid call, field by field.\<close>

lemma prepayment_result:
  assumes "valid_prepayment_input i"
  defines "mr \<equiv> annualInterestRate i / 12 / 100"
  defines "emi \<equiv> calculatePMT (loanPrincipal i) mr (loanTenureMonths i)"
  defines "before \<equiv> emi * of_int (loanTenureMonths i) - loanPrincipal i"
  defines "final \<equiv> prepay_loop mr emi (prepaymentAmount i) (prepaymentMonth i)
                     (loanTenureMonths i * 2) (loanPrincipal i, 0, 0)"
  shows "calculateLoanPrepaymentImpact i =
           Inr \<lparr> interest_before_prepayment = Math_round before,
                 interest_after_prepayment = Math_round (fst (snd final)),
                 interest_saved = Math_round (max 0 (before - fst (snd final))),
                 original_tenure_months = loanTenureMonths i,
                 new_tenure_months = snd (snd final),
                 tenure_reduction_months = max 0 (loanTenureMonths i - snd (snd final)),
                 summary = Summary (prepaymentAmount i) (prepaymentMonth i)
                             (Math_round (max 0 (before - fst (snd final))))
                             (max 0 (loanTenureMonths i - snd (snd final))) \<rparr>"
  using assms(1)
  by (auto simp: valid_prepayment_input_def calculateLoanPrepaymentImpact_def Let_def
        mr_def emi_def before_def final_def)


subsection \<open>A zero interest rate\<close>




subsection \<open>Validation\<close>

lemma invalid_loan_iff: "invalid_loan l \<longleftrightarrow> \<not> valid_loan l"
  by (auto simp: invalid_loan_def valid_loan_def)

lemma optimize_returns_iff:
  "(\<exists>res. optimizeDebtRepayment d = Inr res) \<longleftrightarrow> valid_debt_input d"
  by (auto simp: valid_debt_input_def optimizeDebtRepayment_def Let_def list_ex_iff
        list_all_iff invalid_loan_iff)

text \<open>
  C3. \<^const>\<open>calculateLoanPrepaymentImpact\<close> fails exactly when the principal is not
  positive, the rate is negative, the tenure is not positive, the prepayment amount is
  not positive, the prepayment month is not positive, or the prepayment month is beyond
  the tenure; \<^const>\<open>optimizeDebtRepayment\<close> fails exactly when there is no loan or some
  loan has an empty name, a balance that is not positive, a negative rate or an EMI
  that is not positive. A failure is the error value alone (the message of the failed
  check, nothing of a simulation), and a prepayment in the last month of the tenure is
  accepted.
\<close>

theorem validation_errors:
  "(isl (calculateLoanPrepaymentImpact i) \<longleftrightarrow>
      loanPrincipal i \<le> 0 \<or> annualInterestRate i < 0 \<or> loanTenureMonths i \<le> 0
        \<or> prepaymentAmount i \<le> 0 \<or> prepaymentMonth i \<le> 0
        \<or> prepaymentMonth i > loanTenureMonths i)
   \<and> (isl (calculateLoanPrepaymentImpact i) \<longrightarrow>
        calculateLoanPrepaymentImpact i = Inl (Error ''Invalid input parameters''))
   \<and> (isl (optimizeDebtRepayment d) \<longleftrightarrow>
        loans d = [] \<or> (\<exists>l \<in> set (loans d). loan_name l = [] \<or> outstanding_balance l \<le> 0
                            \<or> annual_interest_rate l < 0 \<or> monthly_emi l \<le> 0))
   \<and> (isl (optimizeDebtRepayment d) \<longrightarrow>
        optimizeDebtRepayment d =
          Inl (Error (if loans d = [] then ''At least one loan is required''
                      else ''Invalid loan data'')))
   \<and> (loanPrincipal i > 0 \<and> annualInterestRate i \<ge> 0 \<and> loanTenureMonths i > 0
        \<and> prepaymentAmount i > 0 \<and> prepaymentMonth i = loanTenureMonths i
      \<longrightarrow> \<not> isl (calculateLoanPrepaymentImpact i))"
  by (auto simp: calculateLoanPrepaymentImpact_def optimizeDebtRepayment_def Let_def
        list_ex_iff invalid_loan_def)

theorem validation_errors_witness:
  "calculateLoanPrepaymentImpact
     \<lparr>loanPrincipal = 1200, annualInterestRate = 12, loanTenureMonths = 3, monthlyEMI = 0,
      outstandingPrincipal = 0, prepaymentAmount = 600, prepaymentMonth = 0\<rparr>
     = Inl (Error ''Invalid input parameters'')
   \<and> \<not> isl (calculateLoanPrepaymentImpact
     \<lparr>loanPrincipal = 1200, annualInterestRate = 12, loanTenureMonths = 3, monthlyEMI = 0,
      outstandingPrincipal = 0, prepaymentAmount = 600, prepaymentMonth = 3\<rparr>)
   \<and> optimizeDebtRepayment \<lparr>loans = [], monthly_surplus = None, risk_tolerance = None\<rparr>
     = Inl (Error ''At least one loan is required'')
   \<and> optimizeDebtRepayment
       \<lparr>loans = [\<lparr>loan_name = ''A'', outstanding_balance = 1000, annual_interest_rate = 12,
                  monthly_emi = 0\<rparr>],
        monthly_surplus = None, risk_tolerance = None\<rparr>
     = Inl (Error ''Invalid loan data'')"
  using
    validation_errors
      [of "\<lparr>loanPrincipal = 1200, annualInterestRate = 12, loanTenureMonths = 3, monthlyEMI = 0,
            outstandingPrincipal = 0, prepaymentAmount = 600, prepaymentMonth = 0\<rparr>"
          "\<lparr>loans = [], monthly_surplus = None, risk_tolerance = None\<rparr>"]
    validation_errors
      [of "\<lparr>loanPrincipal = 1200, annualInterestRate = 12, loanTenureMonths = 3, monthlyEMI = 0,
            outstandingPrincipal = 0, prepaymentAmount = 600, prepaymentMonth = 3\<rparr>"
          "\<lparr>loans = [\<lparr>loan_name = ''A'', outstanding_balance = 1000,
                       annual_interest_rate = 12, monthly_emi = 0\<rparr>],
            monthly_surplus = None, risk_tolerance = None\<rparr>"]
  by simp


subsection \<open>Fields that are not read\<close>

text \<open>
  C4. The result of \<^const>\<open>calculateLoanPrepaymentImpact\<close> does not depend on the fields
  \<^verbatim>\<open>monthlyEMI\<close> and \<^verbatim>\<open>outstandingPrincipal\<close>: two inputs that agree on the principal,
  the rate, the tenure, the prepayment amount and the prepayment month give the same
  result (or the same error), whatever their other two fields are.
\<close>

theorem emi_and_outstanding_ignored:
  assumes "loanPrincipal a = loanPrincipal b"
    and "annualInterestRate a = annualInterestRate b"
    and "loanTenureMonths a = loanTenureMonths b"
    and "prepaymentAmount a = prepaymentAmount b"
    and "prepaymentMonth a = prepaymentMonth b"
  shows "calculateLoanPrepaymentImpact a = calculateLoanPrepaymentImpact b"
  using assms by (simp add: calculateLoanPrepaymentImpact_def)

theorem emi_and_outstanding_ignored_witness:
  "calculateLoanPrepaymentImpact
     \<lparr>loanPrincipal = 5000000, annualInterestRate = 17 / 2, loanTenureMonths = 240,
      monthlyEMI = 43388, outstandingPrincipal = 4500000, prepaymentAmount = 500000,
      prepaymentMonth = 12\<rparr>
   = calculateLoanPrepaymentImpact
     \<lparr>loanPrincipal = 5000000, annualInterestRate = 17 / 2, loanTenureMonths = 240,
      monthlyEMI = 1, outstandingPrincipal = 0, prepaymentAmount = 500000,
      prepaymentMonth = 12\<rparr>"
  using emi_and_outstanding_ignored
    [of "\<lparr>loanPrincipal = 5000000, annualInterestRate = 17 / 2, loanTenureMonths = 240,
          monthlyEMI = 43388, outstandingPrincipal = 4500000, prepaymentAmount = 500000,
          prepaymentMonth = 12\<rparr>"
        "\<lparr>loanPrincipal = 5000000, annualInterestRate = 17 / 2, loanTenureMonths = 240,
          monthlyEMI = 1, outstandingPrincipal = 0, prepaymentAmount = 500000,
          prepaymentMonth = 12\<rparr>"]
  by simp


subsection \<open>The clamped differences\<close>


lemma example_prepayment:
  "calculateLoanPrepaymentImpact
     \<lparr>loanPrincipal = 1200, annualInterestRate = 12, loanTenureMonths = 3, monthlyEMI = 0,
      outstandingPrincipal = 0, prepaymentAmount = 600, prepaymentMonth = 1\<rparr>
   = Inr \<lparr>interest_before_prepayment = 24, interest_after_prepayment = 14,
          interest_saved = 10, original_tenure_months = 3, new_tenure_months = 2,
          tenure_reduction_months = 1, summary = Summary 600 1 10 1\<rparr>"
  by (simp add: calculateLoanPrepaymentImpact_def calculatePMT_def Let_def
        prepay_loop_continue prepay_loop_stop prepay_step_def Math_round_def power3_eq_cube)




subsection \<open>A larger prepayment\<close>

lemma prepay_step_nonneg: "0 \<le> fst (prepay_step r e a p st)"
  by (simp add: prepay_step_remaining)

lemma prepay_loop_grows:
  assumes "0 \<le> r"
  shows "0 \<le> fst st \<Longrightarrow>
         fst (snd st) \<le> fst (snd (prepay_loop r e a p cap st))"
  using assms
proof (induction r e a p cap st rule: prepay_loop.induct)
  case (1 r e a p cap st)
  show ?case
  proof (cases "fst st > 1 \<and> snd (snd st) < cap")
    case True
    with "1.IH" [OF True prepay_step_nonneg "1.prems"(2)] "1.prems"
    have "fst (snd st) + fst st * r \<le> fst (snd (prepay_loop r e a p cap st))"
      by (simp add: prepay_loop_continue)
    moreover from "1.prems" have "0 \<le> fst st * r" by simp
    ultimately show ?thesis by linarith
  next
    case False
    then show ?thesis by (simp add: prepay_loop_stop)
  qed
qed

lemma prepay_step_mono:
  assumes "0 \<le> r" "a2 \<le> a1" "fst s1 \<le> fst s2" "snd (snd s1) = snd (snd s2)"
  shows "fst (prepay_step r e a1 p s1) \<le> fst (prepay_step r e a2 p s2)"
proof -
  have clamp: "max 0 (x - e - q1) \<le> max 0 (y - e - q2)" if "x \<le> y" "q2 \<le> q1"
    for x y q1 q2 :: real
    using that by auto
  from assms have "fst s1 * (1 + r) \<le> fst s2 * (1 + r)"
    by (intro mult_right_mono) auto
  then show ?thesis
    unfolding prepay_step_remaining using assms(2,4) by (intro clamp) auto
qed

lemma prepay_loop_mono:
  assumes "0 \<le> r" "a2 \<le> a1"
  shows "0 \<le> fst s1 \<Longrightarrow> fst s1 \<le> fst s2 \<Longrightarrow> fst (snd s1) \<le> fst (snd s2) \<Longrightarrow>
         snd (snd s1) = snd (snd s2) \<Longrightarrow>
         fst (snd (prepay_loop r e a1 p cap s1)) \<le> fst (snd (prepay_loop r e a2 p cap s2))
         \<and> snd (snd (prepay_loop r e a1 p cap s1)) \<le> snd (snd (prepay_loop r e a2 p cap s2))"
  using assms
proof (induction r e a2 p cap s2 arbitrary: s1 rule: prepay_loop.induct)
  case (1 r e a2 p cap s2)
  show ?case
  proof (cases "fst s2 > 1 \<and> snd (snd s2) < cap")
    case False
    with "1.prems" have "\<not> (fst s1 > 1 \<and> snd (snd s1) < cap)" by auto
    with False "1.prems" show ?thesis by (simp add: prepay_loop_stop)
  next
    case True
    note run2 = True
    show ?thesis
    proof (cases "fst s1 > 1")
      case True
      with run2 "1.prems" have run1: "fst s1 > 1 \<and> snd (snd s1) < cap" by simp
      have "fst (snd (prepay_loop r e a1 p cap (prepay_step r e a1 p s1)))
              \<le> fst (snd (prepay_loop r e a2 p cap (prepay_step r e a2 p s2)))
          \<and> snd (snd (prepay_loop r e a1 p cap (prepay_step r e a1 p s1)))
              \<le> snd (snd (prepay_loop r e a2 p cap (prepay_step r e a2 p s2)))"
      proof (rule "1.IH" [OF run2])
        show "0 \<le> fst (prepay_step r e a1 p s1)" by (rule prepay_step_nonneg)
        show "fst (prepay_step r e a1 p s1) \<le> fst (prepay_step r e a2 p s2)"
          using "1.prems" by (intro prepay_step_mono) auto
        from "1.prems" have "fst s1 * r \<le> fst s2 * r" by (intro mult_right_mono) auto
        with "1.prems" show "fst (snd (prepay_step r e a1 p s1)) \<le> fst (snd (prepay_step r e a2 p s2))"
          by simp
        show "snd (snd (prepay_step r e a1 p s1)) = snd (snd (prepay_step r e a2 p s2))"
          using "1.prems" by simp
      qed (use "1.prems" in auto)
      with run1 run2 show ?thesis by (simp add: prepay_loop_continue)
    next
      case False
      then have stop1: "prepay_loop r e a1 p cap s1 = s1" by (simp add: prepay_loop_stop)
      from "1.prems" have "0 \<le> fst s2" by simp
      from prepay_loop_grows [OF "1.prems"(5) this, of e a2 p cap]
        prepay_loop_months_ge [of s2 r e a2 p cap] "1.prems"
      show ?thesis unfolding stop1 by simp
    qed
  qed
qed

lemma example_emi: "calculatePMT 1200 (1 / 100) 3 = 12363612 / 30301"
  by (simp add: calculatePMT_def power3_eq_cube)

lemma example_loop_larger:
  "prepay_loop (1 / 100) (12363612 / 30301) 900 1 6 (1200, 0, 0) = (0, 12, 1)"
  by (simp add: prepay_loop_continue prepay_loop_stop prepay_step_def Let_def)

lemma example_prepayment_larger:
  "calculateLoanPrepaymentImpact
     \<lparr>loanPrincipal = 1200, annualInterestRate = 12, loanTenureMonths = 3, monthlyEMI = 0,
      outstandingPrincipal = 0, prepaymentAmount = 900, prepaymentMonth = 1\<rparr>
   = Inr \<lparr>interest_before_prepayment = 24, interest_after_prepayment = 12,
          interest_saved = 12, original_tenure_months = 3, new_tenure_months = 1,
          tenure_reduction_months = 2, summary = Summary 900 1 12 2\<rparr>"
  by (simp add: calculateLoanPrepaymentImpact_def Let_def example_emi example_loop_larger
        Math_round_def)

text \<open>
  C5. Of two valid inputs with the same principal, rate, tenure and prepayment month,
  the one with the larger prepayment amount has an \<open>interest_saved\<close> that is at least
  as large and a \<open>new_tenure_months\<close> that is at most as large.
\<close>

theorem larger_prepayment_helps:
  assumes "valid_prepayment_input i" and "valid_prepayment_input j"
    and "loanPrincipal i = loanPrincipal j"
    and "annualInterestRate i = annualInterestRate j"
    and "loanTenureMonths i = loanTenureMonths j"
    and "prepaymentMonth i = prepaymentMonth j"
    and "prepaymentAmount i \<le> prepaymentAmount j"
    and "calculateLoanPrepaymentImpact i = Inr res_i"
    and "calculateLoanPrepaymentImpact j = Inr res_j"
  shows "interest_saved res_i \<le> interest_saved res_j
       \<and> new_tenure_months res_j \<le> new_tenure_months res_i"
proof -
  define r where "r = annualInterestRate i / 12 / 100"
  define e where "e = calculatePMT (loanPrincipal i) r (loanTenureMonths i)"
  define s0 :: "real \<times> real \<times> int" where "s0 = (loanPrincipal i, 0, 0)"
  let ?run = "\<lambda>a. prepay_loop r e a (prepaymentMonth i) (loanTenureMonths i * 2) s0"
  from assms(1) have "0 \<le> r" "0 \<le> fst s0"
    by (simp_all add: valid_prepayment_input_def r_def s0_def)
  from prepay_loop_mono [OF this(1) assms(7) this(2), of s0 e "prepaymentMonth i" "loanTenureMonths i * 2"]
  have mono: "fst (snd (?run (prepaymentAmount j))) \<le> fst (snd (?run (prepaymentAmount i)))"
    "snd (snd (?run (prepaymentAmount j))) \<le> snd (snd (?run (prepaymentAmount i)))"
    by simp_all
  from assms(8) have ri: "interest_saved res_i = Math_round (max 0 (e * of_int (loanTenureMonths i)
         - loanPrincipal i - fst (snd (?run (prepaymentAmount i)))))"
    "new_tenure_months res_i = snd (snd (?run (prepaymentAmount i)))"
    unfolding prepayment_result [OF assms(1)] by (auto simp: r_def e_def s0_def)
  from assms(9) have rj: "interest_saved res_j = Math_round (max 0 (e * of_int (loanTenureMonths i)
         - loanPrincipal i - fst (snd (?run (prepaymentAmount j)))))"
    "new_tenure_months res_j = snd (snd (?run (prepaymentAmount j)))"
    unfolding prepayment_result [OF assms(2)] by (auto simp: r_def e_def s0_def assms(3-6)[symmetric])
  from mono show ?thesis
    unfolding ri rj by (auto intro!: Math_round_mono)
qed

theorem larger_prepayment_helps_witness:
  "valid_prepayment_input
     \<lparr>loanPrincipal = 1200, annualInterestRate = 12, loanTenureMonths = 3, monthlyEMI = 0,
      outstandingPrincipal = 0, prepaymentAmount = 600, prepaymentMonth = 1\<rparr>
   \<and> valid_prepayment_input
     \<lparr>loanPrincipal = 1200, annualInterestRate = 12, loanTenureMonths = 3, monthlyEMI = 0,
      outstandingPrincipal = 0, prepaymentAmount = 900, prepaymentMonth = 1\<rparr>
   \<and> calculateLoanPrepaymentImpact
     \<lparr>loanPrincipal = 1200, annualInterestRate = 12, loanTenureMonths = 3, monthlyEMI = 0,
      outstandingPrincipal = 0, prepaymentAmount = 600, prepaymentMonth = 1\<rparr>
     = Inr \<lparr>interest_before_prepayment = 24, interest_after_prepayment = 14,
          interest_saved = 10, original_tenure_months = 3, new_tenure_months = 2,
          tenure_reduction_months = 1, summary = Summary 600 1 10 1\<rparr>
   \<and> calculateLoanPrepaymentImpact
     \<lparr>loanPrincipal = 1200, annualInterestRate = 12, loanTenureMonths = 3, monthlyEMI = 0,
      outstandingPrincipal = 0, prepaymentAmount = 900, prepaymentMonth = 1\<rparr>
     = Inr \<lparr>interest_before_prepayment = 24, interest_after_prepayment = 12,
          interest_saved = 12, original_tenure_months = 3, new_tenure_months = 1,
          tenure_reduction_months = 2, summary = Summary 900 1 12 2\<rparr>
   \<and> (10::real) \<le> 12 \<and> (1::int) \<le> 2"
  using larger_prepayment_helps [OF _ _ _ _ _ _ _ example_prepayment example_prepayment_larger]
    example_prepayment example_prepayment_larger
  by (simp add: valid_prepayment_input_def)


subsection \<open>Payoff within the original tenure, in exact arithmetic\<close>

text \<open>
  The balances of the schedule without prepayment: a sequence \<open>B\<close> that starts at
  the principal, is never negative, loses at least the principal part of the EMI each
  month and ends at most at 1 after \<open>n\<close> months. The simulated balance stays below
  it, so the loop stops by month \<open>n\<close>.
\<close>

lemma prepay_loop_within_schedule:
  fixes B :: "nat \<Rightarrow> real"
  assumes "0 \<le> r" and "0 \<le> a"
    and "\<forall>k<n. B k * (1 + r) - e \<le> B (Suc k)"
    and "\<forall>k\<le>n. 0 \<le> B k"
    and "B n \<le> 1"
    and "0 \<le> snd (snd st)" and "snd (snd st) \<le> int n"
    and "fst st \<le> B (nat (snd (snd st)))"
  shows "snd (snd (prepay_loop r e a p cap st)) \<le> int n"
  using assms
proof (induction r e a p cap st rule: prepay_loop.induct)
  case (1 r e a p cap st)
  note rate = "1.prems"(1) and amount = "1.prems"(2) and step = "1.prems"(3)
    and nonneg = "1.prems"(4) and last = "1.prems"(5) and month = "1.prems"(6,7)
    and below = "1.prems"(8)
  define k where "k = nat (snd (snd st))"
  show ?case
  proof (cases "fst st > 1 \<and> snd (snd st) < cap")
    case False
    with month show ?thesis by (simp add: prepay_loop_stop)
  next
    case True
    with below last have "k \<noteq> n" unfolding k_def by auto
    with month have k: "k < n" "snd (snd st) = int k" unfolding k_def by auto
    have "fst st * (1 + r) \<le> B k * (1 + r)"
      using below rate by (intro mult_right_mono) (auto simp: k_def)
    then have "fst st * (1 + r) - e \<le> B k * (1 + r) - e" by simp
    also have "\<dots> \<le> B (Suc k)" using step k(1) by simp
    finally have "fst st * (1 + r) - e \<le> B (Suc k)" .
    moreover have "0 \<le> B (Suc k)" using k nonneg by simp
    ultimately have "fst (prepay_step r e a p st) \<le> B (Suc k)"
      unfolding prepay_step_remaining using amount by auto
    moreover have "nat (snd (snd (prepay_step r e a p st))) = Suc k"
      using k by simp
    ultimately have "snd (snd (prepay_loop r e a p cap (prepay_step r e a p st))) \<le> int n"
      using k rate amount step nonneg last by (intro "1.IH" [OF True]) auto
    with True show ?thesis by (simp add: prepay_loop_continue)
  qed
qed

lemma linear_schedule:
  fixes P :: real
  assumes "0 < P" "0 < n"
  defines "B \<equiv> \<lambda>k. P * (real n - real k) / real n"
  shows "B 0 = P" "B n \<le> 1" "\<And>k. k \<le> n \<Longrightarrow> 0 \<le> B k"
    "\<And>k. k < n \<Longrightarrow> B k * (1 + 0) - calculatePMT P 0 (int n) \<le> B (Suc k)"
  using assms by (auto simp: calculatePMT_def field_simps)

lemma annuity_schedule:
  fixes P r :: real
  assumes "0 < P" "0 < n" "0 < r"
  defines "B \<equiv> \<lambda>k. P * ((1 + r) ^ n - (1 + r) ^ k) / ((1 + r) ^ n - 1)"
  shows "B 0 = P" "B n \<le> 1" "\<And>k. k \<le> n \<Longrightarrow> 0 \<le> B k"
    "\<And>k. k < n \<Longrightarrow> B k * (1 + r) - calculatePMT P r (int n) \<le> B (Suc k)"
proof -
  from assms have q: "1 < (1 + r) ^ n"
    by (simp add: one_less_power)
  then have d: "0 < (1 + r) ^ n - 1" by simp
  show "B 0 = P" using d by (simp add: B_def)
  show "B n \<le> 1" by (simp add: B_def)
  show "0 \<le> B k" if "k \<le> n" for k
  proof -
    from that assms have "(1 + r) ^ k \<le> (1 + r) ^ n"
      by (intro power_increasing) auto
    with d assms show ?thesis by (simp add: B_def)
  qed
  show "B k * (1 + r) - calculatePMT P r (int n) \<le> B (Suc k)" if "k < n" for k
  proof -
    define Q where "Q = (1 + r) ^ n"
    define X where "X = (1 + r) ^ k"
    have "calculatePMT P r (int n) = P * r * Q / (Q - 1)"
      using assms(3) by (simp add: calculatePMT_def Q_def)
    then have "B k * (1 + r) - calculatePMT P r (int n)
                 = (P * (Q - X) * (1 + r) - P * r * Q) / (Q - 1)"
      by (simp add: B_def Q_def X_def diff_divide_distrib)
    also have "P * (Q - X) * (1 + r) - P * r * Q = P * (Q - (1 + r) * X)"
      by (simp add: algebra_simps)
    also have "P * (Q - (1 + r) * X) / (Q - 1) = B (Suc k)"
      by (simp add: B_def Q_def X_def)
    finally show ?thesis by simp
  qed
qed

lemma prepay_loop_within_tenure:
  assumes "valid_prepayment_input i"
  defines "r \<equiv> annualInterestRate i / 12 / 100"
  shows "snd (snd (prepay_loop r (calculatePMT (loanPrincipal i) r (loanTenureMonths i))
                     (prepaymentAmount i) (prepaymentMonth i) cap (loanPrincipal i, 0, 0)))
           \<le> loanTenureMonths i"
proof -
  define n where "n = nat (loanTenureMonths i)"
  define P where "P = loanPrincipal i"
  from assms(1) have n: "0 < n" "loanTenureMonths i = int n" and P: "0 < P"
    and a: "0 \<le> prepaymentAmount i" and r: "0 \<le> r"
    by (simp_all add: valid_prepayment_input_def n_def r_def P_def)
  have "\<exists>B :: nat \<Rightarrow> real. B 0 = P \<and> B n \<le> 1 \<and> (\<forall>k\<le>n. 0 \<le> B k)
          \<and> (\<forall>k<n. B k * (1 + r) - calculatePMT P r (int n) \<le> B (Suc k))"
  proof (cases "r = 0")
    case True
    from linear_schedule [OF P n(1)] show ?thesis
      unfolding True by (intro exI [of _ "\<lambda>k. P * (real n - real k) / real n"]) blast
  next
    case False
    with r have "0 < r" by simp
    from annuity_schedule [OF P n(1) this] show ?thesis
      by (intro exI [of _ "\<lambda>k. P * ((1 + r) ^ n - (1 + r) ^ k) / ((1 + r) ^ n - 1)"]) blast
  qed
  then obtain B :: "nat \<Rightarrow> real" where B: "B 0 = P" "B n \<le> 1" "\<forall>k\<le>n. 0 \<le> B k"
    "\<forall>k<n. B k * (1 + r) - calculatePMT P r (int n) \<le> B (Suc k)"
    by blast
  have "snd (snd (prepay_loop r (calculatePMT P r (int n)) (prepaymentAmount i)
                    (prepaymentMonth i) cap (P, 0, 0))) \<le> int n"
    by (rule prepay_loop_within_schedule [OF r a B(4) B(3) B(2)]) (simp_all add: B(1))
  then show ?thesis by (simp add: P_def n(2))
qed


section \<open>Properties of the debt repayment optimizer\<close>

subsection \<open>The loops\<close>

lemma loan_interest_loop_stop:
  "\<not> (fst st > 1 / 100 \<and> snd (snd st) < 600) \<Longrightarrow> loan_interest_loop r e st = st"
  by (subst loan_interest_loop.simps) auto

lemma loan_interest_loop_break:
  "e - fst st * r \<le> 0 \<Longrightarrow> loan_interest_loop r e st = st"
  by (subst loan_interest_loop.simps) (auto simp: Let_def)

lemma loan_interest_loop_continue:
  "fst st > 1 / 100 \<Longrightarrow> snd (snd st) < 600 \<Longrightarrow> e - fst st * r > 0 \<Longrightarrow>
     loan_interest_loop r e st =
       loan_interest_loop r e
         (fst st - (e - fst st * r), fst (snd st) + fst st * r, snd (snd st) + 1)"
  by (subst loan_interest_loop.simps) (auto simp: Let_def)

lemma strategy_loop_stop:
  "\<not> (fcard p < length ls \<and> m < 600) \<Longrightarrow>
     strategy_loop ls ord sur (b, p, t, m) = (b, p, t, m)"
  by (subst strategy_loop.simps) auto

lemma strategy_loop_no_priority:
  "find (\<lambda>name. name |\<notin>| p) ord = None \<Longrightarrow>
     strategy_loop ls ord sur (b, p, t, m) = (b, p, t, m)"
  by (subst strategy_loop.simps) auto

lemma strategy_loop_empty_name:
  "find (\<lambda>name. name |\<notin>| p) ord = Some [] \<Longrightarrow>
     strategy_loop ls ord sur (b, p, t, m) = (b, p, t, m)"
  by (subst strategy_loop.simps) auto

lemma strategy_loop_continue:
  "fcard p < length ls \<Longrightarrow> m < 600 \<Longrightarrow> find (\<lambda>name. name |\<notin>| p) ord = Some prio \<Longrightarrow>
   prio \<noteq> [] \<Longrightarrow>
   strategy_loop ls ord sur (b, p, t, m) =
     (let st' = fold (pay_loan prio) ls (b, p, t, freed_up_extra ls p sur)
      in strategy_loop ls ord sur (fst st', fst (snd st'), fst (snd (snd st')), m + 1))"
  by (subst strategy_loop.simps) (auto simp: Let_def)

lemma strategy_loop_unfold:
  "fcard p < length ls \<Longrightarrow> m < 600 \<Longrightarrow>
   strategy_loop ls ord sur (b, p, t, m) =
     (case find (\<lambda>name. name |\<notin>| p) ord of
        None \<Rightarrow> (b, p, t, m)
      | Some prio \<Rightarrow>
          if prio = [] then (b, p, t, m)
          else let st' = fold (pay_loan prio) ls (b, p, t, freed_up_extra ls p sur)
               in strategy_loop ls ord sur (fst st', fst (snd st'), fst (snd (snd st')), m + 1))"
  by (subst strategy_loop.simps) (auto simp: Let_def split: option.splits)

lemma strategy_loop_months_le:
  "m \<le> 600 \<Longrightarrow> snd (snd (snd (strategy_loop ls ord sur (b, p, t, m)))) \<le> 600"
proof (induction "nat (600 - m)" arbitrary: b p t m rule: less_induct)
  case less
  show ?case
  proof (cases "fcard p < length ls \<and> m < 600")
    case False
    with less.prems show ?thesis by (simp add: strategy_loop_stop)
  next
    case True
    show ?thesis
    proof (cases "find (\<lambda>name. name |\<notin>| p) ord")
      case None
      with less.prems show ?thesis by (simp add: strategy_loop_no_priority)
    next
      case (Some prio)
      show ?thesis
      proof (cases "prio = []")
        case True
        with Some less.prems show ?thesis by (simp add: strategy_loop_empty_name)
      next
        case False
        from True have "nat (600 - (m + 1)) < nat (600 - m)" "m + 1 \<le> 600" by auto
        from less.hyps [OF this] True Some False show ?thesis
          by (simp add: strategy_loop_continue Let_def)
      qed
    qed
  qed
qed


text \<open>Rewrite rules that run the simulations on concrete portfolios.\<close>

lemmas strategy_eval = calculateStrategyInterest_def initial_balances_def strategy_loop_unfold
  strategy_loop_stop strategy_loop_no_priority freed_up_extra_def pay_loan_def Let_def Math_round_def
  fcard_fempty fcard_finsert_if

lemmas baseline_eval = calculateBaselineInterest_def calculateLoanInterest_def
  loan_interest_loop_continue loan_interest_loop_stop loan_interest_loop_break Math_round_def

lemmas order_eval = generateAvalancheOrder_def generateSnowballOrder_def Array_sort_def
  avalanche_compare_def snowball_compare_def


subsection \<open>Two portfolios of two loans, evaluated\<close>

lemma two_loans_orders:
  "generateAvalancheOrder
     [\<lparr>loan_name = ''A'', outstanding_balance = 50, annual_interest_rate = 12, monthly_emi = 200\<rparr>,
      \<lparr>loan_name = ''B'', outstanding_balance = 100, annual_interest_rate = 24, monthly_emi = 200\<rparr>]
     = [''B'', ''A'']"
  "generateSnowballOrder
     [\<lparr>loan_name = ''A'', outstanding_balance = 50, annual_interest_rate = 12, monthly_emi = 200\<rparr>,
      \<lparr>loan_name = ''B'', outstanding_balance = 100, annual_interest_rate = 24, monthly_emi = 200\<rparr>]
     = [''A'', ''B'']"
  by (simp_all add: generateAvalancheOrder_def generateSnowballOrder_def Array_sort_def
        avalanche_compare_def snowball_compare_def)

lemma two_loans_strategy:
  "calculateStrategyInterest
     [\<lparr>loan_name = ''A'', outstanding_balance = 50, annual_interest_rate = 12, monthly_emi = 200\<rparr>,
      \<lparr>loan_name = ''B'', outstanding_balance = 100, annual_interest_rate = 24, monthly_emi = 200\<rparr>]
     [''B'', ''A''] 0 = 5 / 2"
  "calculateStrategyInterest
     [\<lparr>loan_name = ''A'', outstanding_balance = 50, annual_interest_rate = 12, monthly_emi = 200\<rparr>,
      \<lparr>loan_name = ''B'', outstanding_balance = 100, annual_interest_rate = 24, monthly_emi = 200\<rparr>]
     [''A'', ''B''] 0 = 5 / 2"
  by (simp_all add: calculateStrategyInterest_def initial_balances_def strategy_loop_unfold
        strategy_loop_stop freed_up_extra_def pay_loan_def Let_def Math_round_def
        fcard_fempty fcard_finsert_if)

lemma two_loans_baseline:
  "calculateBaselineInterest
     [\<lparr>loan_name = ''A'', outstanding_balance = 50, annual_interest_rate = 12, monthly_emi = 200\<rparr>,
      \<lparr>loan_name = ''B'', outstanding_balance = 100, annual_interest_rate = 24, monthly_emi = 200\<rparr>]
     = 5 / 2"
  by (simp add: calculateBaselineInterest_def calculateLoanInterest_def
        loan_interest_loop_continue loan_interest_loop_stop Math_round_def)

lemma example_two_loans:
  "optimizeDebtRepayment
     \<lparr>loans =
        [\<lparr>loan_name = ''A'', outstanding_balance = 50, annual_interest_rate = 12, monthly_emi = 200\<rparr>,
         \<lparr>loan_name = ''B'', outstanding_balance = 100, annual_interest_rate = 24, monthly_emi = 200\<rparr>],
      monthly_surplus = None, risk_tolerance = Some Low\<rparr>
   = Inr \<lparr>avalanche_order = [''B'', ''A''], snowball_order = [''A'', ''B''],
          recommended_strategy = Snowball, reason = SimilarSnowballLow 0,
          estimated_interest_saved = 0\<rparr>"
  by (simp add: optimizeDebtRepayment_def decide_def invalid_loan_def two_loans_orders
        two_loans_strategy two_loans_baseline Let_def)


subsection \<open>Iteration caps\<close>

text \<open>
  C9. Both simulations are total functions whose termination rests on their iteration
  caps, and a valid input never fails. The loop of \<^const>\<open>calculateLoanPrepaymentImpact\<close>
  counts its passes in \<open>monthsElapsed\<close>, which is returned as \<open>new_tenure_months\<close> and
  is at most \<open>2 * loanTenureMonths\<close>. The loop of \<^const>\<open>calculateStrategyInterest\<close>
  counts its passes in \<open>months\<close>, which ends at 600 at most, and the function returns
  the interest accumulated by then, rounded to cents.
\<close>

theorem simulations_capped:
  "(valid_prepayment_input i \<longrightarrow>
      (\<exists>res. calculateLoanPrepaymentImpact i = Inr res
         \<and> 0 \<le> new_tenure_months res \<and> new_tenure_months res \<le> 2 * loanTenureMonths i))
   \<and> snd (snd (snd (strategy_loop ls ord sur (initial_balances ls, {||}, 0, 0)))) \<le> 600
   \<and> calculateStrategyInterest ls ord sur =
       Math_round (fst (snd (snd (strategy_loop ls ord sur (initial_balances ls, {||}, 0, 0))))
                   * 100) / 100
   \<and> (valid_debt_input d \<longrightarrow> (\<exists>res. optimizeDebtRepayment d = Inr res))"
proof (intro conjI impI)
  assume v: "valid_prepayment_input i"
  then have "0 \<le> loanTenureMonths i * 2" by (simp add: valid_prepayment_input_def)
  from prepay_loop_months_le [of "(loanPrincipal i, 0, 0)" "loanTenureMonths i * 2"] this
    prepay_loop_months_ge [of "(loanPrincipal i, 0, 0)"]
  show "\<exists>res. calculateLoanPrepaymentImpact i = Inr res
         \<and> 0 \<le> new_tenure_months res \<and> new_tenure_months res \<le> 2 * loanTenureMonths i"
    unfolding prepayment_result [OF v] by (simp add: mult.commute)
next
  show "snd (snd (snd (strategy_loop ls ord sur (initial_balances ls, {||}, 0, 0)))) \<le> 600"
    by (rule strategy_loop_months_le) simp
next
  show "calculateStrategyInterest ls ord sur =
       Math_round (fst (snd (snd (strategy_loop ls ord sur (initial_balances ls, {||}, 0, 0))))
                   * 100) / 100"
    by (simp add: calculateStrategyInterest_def)
next
  assume "valid_debt_input d"
  then show "\<exists>res. optimizeDebtRepayment d = Inr res"
    by (simp add: optimize_returns_iff)
qed

theorem simulations_capped_witness:
  "valid_prepayment_input
     \<lparr>loanPrincipal = 5000000, annualInterestRate = 17 / 2, loanTenureMonths = 240,
      monthlyEMI = 43388, outstandingPrincipal = 4500000, prepaymentAmount = 500000,
      prepaymentMonth = 12\<rparr>
   \<and> (\<exists>res. calculateLoanPrepaymentImpact
               \<lparr>loanPrincipal = 5000000, annualInterestRate = 17 / 2, loanTenureMonths = 240,
                monthlyEMI = 43388, outstandingPrincipal = 4500000,
                prepaymentAmount = 500000, prepaymentMonth = 12\<rparr> = Inr res
          \<and> 0 \<le> new_tenure_months res \<and> new_tenure_months res \<le> 2 * 240)
   \<and> valid_debt_input
       \<lparr>loans = [\<lparr>loan_name = ''A'', outstanding_balance = 1000, annual_interest_rate = 24,
                  monthly_emi = 10\<rparr>],
        monthly_surplus = None, risk_tolerance = None\<rparr>
   \<and> (\<exists>res. optimizeDebtRepayment
               \<lparr>loans = [\<lparr>loan_name = ''A'', outstanding_balance = 1000,
                          annual_interest_rate = 24, monthly_emi = 10\<rparr>],
                monthly_surplus = None, risk_tolerance = None\<rparr> = Inr res)"
  using simulations_capped
    [of "\<lparr>loanPrincipal = 5000000, annualInterestRate = 17 / 2, loanTenureMonths = 240,
          monthlyEMI = 43388, outstandingPrincipal = 4500000, prepaymentAmount = 500000,
          prepaymentMonth = 12\<rparr>"
        _ _ _
        "\<lparr>loans = [\<lparr>loan_name = ''A'', outstanding_balance = 1000, annual_interest_rate = 24,
                    monthly_emi = 10\<rparr>],
          monthly_surplus = None, risk_tolerance = None\<rparr>"]
  by (simp add: valid_prepayment_input_def valid_debt_input_def valid_loan_def)


subsection \<open>The two orders\<close>

lemma mset_insert_by: "mset (insert_by cmp a xs) = add_mset a (mset xs)"
  by (induction xs) auto

lemma mset_Array_sort: "mset (Array_sort cmp xs) = mset xs"
  unfolding Array_sort_def by (induction xs) (auto simp: mset_insert_by)

lemma set_insert_by: "set (insert_by cmp a xs) = insert a (set xs)"
  using mset_insert_by [of cmp a xs, THEN arg_cong, of set_mset] by simp

lemma sorted_wrt_insert_by:
  assumes cmp: "\<And>x y. cmp x y \<le> 0 \<longleftrightarrow> R x y"
    and total: "\<And>x y. R x y \<or> R y x"
    and trans: "\<And>x y z. R x y \<Longrightarrow> R y z \<Longrightarrow> R x z"
  shows "sorted_wrt R xs \<Longrightarrow> sorted_wrt R (insert_by cmp a xs)"
proof (induction xs)
  case Nil
  then show ?case by simp
next
  case (Cons b bs)
  show ?case
  proof (cases "R a b")
    case True
    with Cons.prems have "\<forall>y \<in> set (b # bs). R a y" by (auto intro: trans)
    with True Cons.prems show ?thesis by (simp add: cmp)
  next
    case False
    with total have "R b a" by blast
    with Cons False show ?thesis by (auto simp: cmp set_insert_by)
  qed
qed

lemma sorted_wrt_Array_sort:
  assumes "\<And>x y. cmp x y \<le> 0 \<longleftrightarrow> R x y"
    and "\<And>x y. R x y \<or> R y x"
    and "\<And>x y z. R x y \<Longrightarrow> R y z \<Longrightarrow> R x z"
  shows "sorted_wrt R (Array_sort cmp xs)"
  unfolding Array_sort_def
  by (induction xs) (auto intro: sorted_wrt_insert_by [of cmp R, OF assms])

lemma avalanche_sorted: "sorted_wrt avalanche_before (Array_sort avalanche_compare ls)"
  by (rule sorted_wrt_Array_sort) (auto simp: avalanche_before_def avalanche_compare_def)

lemma snowball_sorted: "sorted_wrt snowball_before (Array_sort snowball_compare ls)"
  by (rule sorted_wrt_Array_sort) (auto simp: snowball_before_def snowball_compare_def)

text \<open>
  C6. In the result of a successful call, \<open>avalanche_order\<close> and \<open>snowball_order\<close> have
  the multiset of the input loan names. \<open>avalanche_order\<close> is the list of names of a
  rearrangement of the loans in which every loan stands before every later one in the
  avalanche sense (higher rate first, among equal rates the higher balance first), and
  \<open>snowball_order\<close> likewise in the snowball sense (lower balance first, among equal
  balances the higher rate first).
\<close>

theorem orders_are_sorted_permutations:
  assumes "optimizeDebtRepayment d = Inr res"
  shows "mset (avalanche_order res) = mset (map loan_name (loans d))
       \<and> mset (snowball_order res) = mset (map loan_name (loans d))
       \<and> (\<exists>sorted_loans. mset sorted_loans = mset (loans d)
             \<and> sorted_wrt avalanche_before sorted_loans
             \<and> avalanche_order res = map loan_name sorted_loans)
       \<and> (\<exists>sorted_loans. mset sorted_loans = mset (loans d)
             \<and> sorted_wrt snowball_before sorted_loans
             \<and> snowball_order res = map loan_name sorted_loans)"
proof -
  from assms have a: "avalanche_order res = map loan_name (Array_sort avalanche_compare (loans d))"
    and s: "snowball_order res = map loan_name (Array_sort snowball_compare (loans d))"
    by (auto simp: optimizeDebtRepayment_def Let_def generateAvalancheOrder_def
        generateSnowballOrder_def split: if_splits)
  have "mset (avalanche_order res) = mset (map loan_name (loans d))"
    unfolding a by (simp add: mset_Array_sort)
  moreover have "mset (snowball_order res) = mset (map loan_name (loans d))"
    unfolding s by (simp add: mset_Array_sort)
  moreover have "\<exists>sorted_loans. mset sorted_loans = mset (loans d)
             \<and> sorted_wrt avalanche_before sorted_loans
             \<and> avalanche_order res = map loan_name sorted_loans"
    using a avalanche_sorted mset_Array_sort by blast
  moreover have "\<exists>sorted_loans. mset sorted_loans = mset (loans d)
             \<and> sorted_wrt snowball_before sorted_loans
             \<and> snowball_order res = map loan_name sorted_loans"
    using s snowball_sorted mset_Array_sort by blast
  ultimately show ?thesis by blast
qed

theorem orders_are_sorted_permutations_witness:
  "optimizeDebtRepayment
     \<lparr>loans =
        [\<lparr>loan_name = ''A'', outstanding_balance = 50, annual_interest_rate = 12, monthly_emi = 200\<rparr>,
         \<lparr>loan_name = ''B'', outstanding_balance = 100, annual_interest_rate = 24, monthly_emi = 200\<rparr>],
      monthly_surplus = None, risk_tolerance = Some Low\<rparr>
   = Inr \<lparr>avalanche_order = [''B'', ''A''], snowball_order = [''A'', ''B''],
          recommended_strategy = Snowball, reason = SimilarSnowballLow 0,
          estimated_interest_saved = 0\<rparr>
   \<and> mset [''B'', ''A''] = mset [''A'', ''B'']"
  using orders_are_sorted_permutations [OF example_two_loans] example_two_loans
  by simp


subsection \<open>Portfolios whose saving is negative\<close>

lemma small_emi_parts:
  "generateAvalancheOrder
     [\<lparr>loan_name = ''A'', outstanding_balance = 1000, annual_interest_rate = 12, monthly_emi = 5\<rparr>]
     = [''A'']"
  "generateSnowballOrder
     [\<lparr>loan_name = ''A'', outstanding_balance = 1000, annual_interest_rate = 12, monthly_emi = 5\<rparr>]
     = [''A'']"
  "calculateStrategyInterest
     [\<lparr>loan_name = ''A'', outstanding_balance = 1000, annual_interest_rate = 12, monthly_emi = 5\<rparr>]
     [''A''] 2000 = 10"
  "calculateBaselineInterest
     [\<lparr>loan_name = ''A'', outstanding_balance = 1000, annual_interest_rate = 12, monthly_emi = 5\<rparr>]
     = 0"
     apply (simp add: order_eval)
    apply (simp add: order_eval)
   apply (simp add: strategy_eval)
  apply (simp add: baseline_eval)
  done

lemma example_small_emi:
  "optimizeDebtRepayment
     \<lparr>loans = [\<lparr>loan_name = ''A'', outstanding_balance = 1000, annual_interest_rate = 12,
                monthly_emi = 5\<rparr>],
      monthly_surplus = Some 2000, risk_tolerance = None\<rparr>
   = Inr \<lparr>avalanche_order = [''A''], snowball_order = [''A''],
          recommended_strategy = Avalanche, reason = ModestAvalancheMedium 0,
          estimated_interest_saved = - 10\<rparr>"
  by (simp add: optimizeDebtRepayment_def decide_def invalid_loan_def small_emi_parts Let_def
        Math_round_def)

lemma cent_rounding_parts:
  "generateAvalancheOrder
     [\<lparr>loan_name = ''A'', outstanding_balance = 4, annual_interest_rate = 6 / 5, monthly_emi = 100\<rparr>,
      \<lparr>loan_name = ''B'', outstanding_balance = 4, annual_interest_rate = 6 / 5, monthly_emi = 100\<rparr>]
     = [''A'', ''B'']"
  "generateSnowballOrder
     [\<lparr>loan_name = ''A'', outstanding_balance = 4, annual_interest_rate = 6 / 5, monthly_emi = 100\<rparr>,
      \<lparr>loan_name = ''B'', outstanding_balance = 4, annual_interest_rate = 6 / 5, monthly_emi = 100\<rparr>]
     = [''A'', ''B'']"
  "calculateStrategyInterest
     [\<lparr>loan_name = ''A'', outstanding_balance = 4, annual_interest_rate = 6 / 5, monthly_emi = 100\<rparr>,
      \<lparr>loan_name = ''B'', outstanding_balance = 4, annual_interest_rate = 6 / 5, monthly_emi = 100\<rparr>]
     [''A'', ''B''] 0 = 1 / 100"
  "calculateBaselineInterest
     [\<lparr>loan_name = ''A'', outstanding_balance = 4, annual_interest_rate = 6 / 5, monthly_emi = 100\<rparr>,
      \<lparr>loan_name = ''B'', outstanding_balance = 4, annual_interest_rate = 6 / 5, monthly_emi = 100\<rparr>]
     = 0"
     apply (simp add: order_eval)
    apply (simp add: order_eval)
   apply (simp add: strategy_eval)
  apply (simp add: baseline_eval)
  done

lemma example_cent_rounding:
  "optimizeDebtRepayment
     \<lparr>loans =
        [\<lparr>loan_name = ''A'', outstanding_balance = 4, annual_interest_rate = 6 / 5, monthly_emi = 100\<rparr>,
         \<lparr>loan_name = ''B'', outstanding_balance = 4, annual_interest_rate = 6 / 5, monthly_emi = 100\<rparr>],
      monthly_surplus = None, risk_tolerance = None\<rparr>
   = Inr \<lparr>avalanche_order = [''A'', ''B''], snowball_order = [''A'', ''B''],
          recommended_strategy = Avalanche, reason = ModestAvalancheMedium 0,
          estimated_interest_saved = - (1 / 100)\<rparr>"
  by (simp add: optimizeDebtRepayment_def decide_def invalid_loan_def cent_rounding_parts Let_def
        Math_round_def)

lemma shared_name_parts:
  "generateAvalancheOrder
     [\<lparr>loan_name = ''A'', outstanding_balance = 100, annual_interest_rate = 24, monthly_emi = 200\<rparr>,
      \<lparr>loan_name = ''A'', outstanding_balance = 1000, annual_interest_rate = 0, monthly_emi = 2000\<rparr>]
     = [''A'', ''A'']"
  "generateSnowballOrder
     [\<lparr>loan_name = ''A'', outstanding_balance = 100, annual_interest_rate = 24, monthly_emi = 200\<rparr>,
      \<lparr>loan_name = ''A'', outstanding_balance = 1000, annual_interest_rate = 0, monthly_emi = 2000\<rparr>]
     = [''A'', ''A'']"
  "calculateStrategyInterest
     [\<lparr>loan_name = ''A'', outstanding_balance = 100, annual_interest_rate = 24, monthly_emi = 200\<rparr>,
      \<lparr>loan_name = ''A'', outstanding_balance = 1000, annual_interest_rate = 0, monthly_emi = 2000\<rparr>]
     [''A'', ''A''] 0 = 20"
  "calculateBaselineInterest
     [\<lparr>loan_name = ''A'', outstanding_balance = 100, annual_interest_rate = 24, monthly_emi = 200\<rparr>,
      \<lparr>loan_name = ''A'', outstanding_balance = 1000, annual_interest_rate = 0, monthly_emi = 2000\<rparr>]
     = 2"
     apply (simp add: order_eval)
    apply (simp add: order_eval)
   apply (simp add: strategy_eval)
  apply (simp add: baseline_eval)
  done

lemma example_shared_name:
  "optimizeDebtRepayment
     \<lparr>loans =
        [\<lparr>loan_name = ''A'', outstanding_balance = 100, annual_interest_rate = 24, monthly_emi = 200\<rparr>,
         \<lparr>loan_name = ''A'', outstanding_balance = 1000, annual_interest_rate = 0, monthly_emi = 2000\<rparr>],
      monthly_surplus = None, risk_tolerance = None\<rparr>
   = Inr \<lparr>avalanche_order = [''A'', ''A''], snowball_order = [''A'', ''A''],
          recommended_strategy = Avalanche, reason = ModestAvalancheMedium 0,
          estimated_interest_saved = - 18\<rparr>"
  by (simp add: optimizeDebtRepayment_def decide_def invalid_loan_def shared_name_parts Let_def
        Math_round_def)

text \<open>
  The claim C1 as it is stated fails on valid inputs with a non-negative surplus, in
  three ways. A single loan whose EMI is below its monthly interest: the baseline loop
  leaves at once with no interest, the strategy simulation charges a month of interest
  before the surplus clears the loan. Two loans with 0.004 of interest each: each
  baseline term rounds to 0, the strategy total 0.008 rounds to 0.01. Two loans under
  one name: they share one entry of \<open>balances\<close>, and the loan with the higher rate is
  charged interest on the balance of the other one.
\<close>

theorem saving_can_be_negative:
  "valid_debt_input
     \<lparr>loans = [\<lparr>loan_name = ''A'', outstanding_balance = 1000, annual_interest_rate = 12,
                monthly_emi = 5\<rparr>],
      monthly_surplus = Some 2000, risk_tolerance = None\<rparr>
   \<and> optimizeDebtRepayment
     \<lparr>loans = [\<lparr>loan_name = ''A'', outstanding_balance = 1000, annual_interest_rate = 12,
                monthly_emi = 5\<rparr>],
      monthly_surplus = Some 2000, risk_tolerance = None\<rparr>
     = Inr \<lparr>avalanche_order = [''A''], snowball_order = [''A''],
          recommended_strategy = Avalanche, reason = ModestAvalancheMedium 0,
          estimated_interest_saved = - 10\<rparr>
   \<and> estimated_interest_saved
       \<lparr>avalanche_order = [''A''], snowball_order = [''A''],
        recommended_strategy = Avalanche, reason = ModestAvalancheMedium 0,
        estimated_interest_saved = - 10\<rparr> < 0
   \<and> valid_debt_input
     \<lparr>loans =
        [\<lparr>loan_name = ''A'', outstanding_balance = 4, annual_interest_rate = 6 / 5, monthly_emi = 100\<rparr>,
         \<lparr>loan_name = ''B'', outstanding_balance = 4, annual_interest_rate = 6 / 5, monthly_emi = 100\<rparr>],
      monthly_surplus = None, risk_tolerance = None\<rparr>
   \<and> optimizeDebtRepayment
     \<lparr>loans =
        [\<lparr>loan_name = ''A'', outstanding_balance = 4, annual_interest_rate = 6 / 5, monthly_emi = 100\<rparr>,
         \<lparr>loan_name = ''B'', outstanding_balance = 4, annual_interest_rate = 6 / 5, monthly_emi = 100\<rparr>],
      monthly_surplus = None, risk_tolerance = None\<rparr>
     = Inr \<lparr>avalanche_order = [''A'', ''B''], snowball_order = [''A'', ''B''],
          recommended_strategy = Avalanche, reason = ModestAvalancheMedium 0,
          estimated_interest_saved = - (1 / 100)\<rparr>
   \<and> estimated_interest_saved
       \<lparr>avalanche_order = [''A'', ''B''], snowball_order = [''A'', ''B''],
        recommended_strategy = Avalanche, reason = ModestAvalancheMedium 0,
        estimated_interest_saved = - (1 / 100)\<rparr> < 0
   \<and> valid_debt_input
     \<lparr>loans =
        [\<lparr>loan_name = ''A'', outstanding_balance = 100, annual_interest_rate = 24, monthly_emi = 200\<rparr>,
         \<lparr>loan_name = ''A'', outstanding_balance = 1000, annual_interest_rate = 0, monthly_emi = 2000\<rparr>],
      monthly_surplus = None, risk_tolerance = None\<rparr>
   \<and> optimizeDebtRepayment
     \<lparr>loans =
        [\<lparr>loan_name = ''A'', outstanding_balance = 100, annual_interest_rate = 24, monthly_emi = 200\<rparr>,
         \<lparr>loan_name = ''A'', outstanding_balance = 1000, annual_interest_rate = 0, monthly_emi = 2000\<rparr>],
      monthly_surplus = None, risk_tolerance = None\<rparr>
     = Inr \<lparr>avalanche_order = [''A'', ''A''], snowball_order = [''A'', ''A''],
          recommended_strategy = Avalanche, reason = ModestAvalancheMedium 0,
          estimated_interest_saved = - 18\<rparr>
   \<and> estimated_interest_saved
       \<lparr>avalanche_order = [''A'', ''A''], snowball_order = [''A'', ''A''],
        recommended_strategy = Avalanche, reason = ModestAvalancheMedium 0,
        estimated_interest_saved = - 18\<rparr> < 0"
  using example_small_emi example_cent_rounding example_shared_name
  by (simp add: valid_debt_input_def valid_loan_def)


section \<open>Machine arithmetic\<close>

subsection \<open>The rounding of double precision\<close>

text \<open>\<open>binade x\<close> is the exponent of the binade of \<open>x\<close>.\<close>

lemma pow2_le_mono: "a \<le> b \<Longrightarrow> (2::real) powi a \<le> 2 powi b"
  by (rule power_int_increasing) simp_all

lemma pow2_less_cancel: "(2::real) powi a < 2 powi b \<Longrightarrow> a < b"
  using pow2_le_mono [of b a] by (cases "a < b") auto

lemma binade_bounds_large:
  assumes "1 \<le> \<bar>x\<bar>"
  shows "2 powi binade x \<le> \<bar>x\<bar> \<and> \<bar>x\<bar> < 2 powi (binade x + 1)"
proof -
    define n where "n = nat \<lfloor>\<bar>x\<bar>\<rfloor>"
    define k where "k = floorlog 2 n"
    from assms have "1 \<le> \<lfloor>\<bar>x\<bar>\<rfloor>" by (simp add: le_floor_iff)
    then have n: "0 < n" "real n \<le> \<bar>x\<bar>" "\<bar>x\<bar> < real n + 1"
      unfolding n_def by linarith+
    from floorlog_bounds [OF n(1), of 2] have b: "2 ^ (k - 1) \<le> n" "n < 2 ^ k"
      by (simp_all add: k_def)
    from n(1) have "k \<noteq> 0" by (simp add: k_def floorlog_eq_zero_iff)
    then have "0 < k" by simp
    then have e: "binade x = int (k - 1)" "binade x + 1 = int k"
      using assms by (simp_all add: binade_def n_def k_def)
    from b(1) have "real (2 ^ (k - 1)) \<le> real n" by (simp only: of_nat_le_iff)
    then have lo: "(2::real) ^ (k - 1) \<le> real n" by simp
    from b(2) have "Suc n \<le> 2 ^ k" by simp
    then have "real (Suc n) \<le> real (2 ^ k)" by (simp only: of_nat_le_iff)
    then have hi: "real n + 1 \<le> 2 ^ k" by simp
    have "2 powi binade x = (2::real) ^ (k - 1)" by (simp only: e(1) power_int_of_nat)
    moreover have "2 powi (binade x + 1) = (2::real) ^ k" by (simp only: e(2) power_int_of_nat)
    ultimately show ?thesis using lo hi n by linarith
qed

lemma binade_bounds_small:
  assumes "\<not> 1 \<le> \<bar>x\<bar>" "x \<noteq> 0"
  shows "2 powi binade x \<le> \<bar>x\<bar> \<and> \<bar>x\<bar> < 2 powi (binade x + 1)"
proof -
    define t where "t = 1 / \<bar>x\<bar>"
    define n where "n = nat (\<lceil>t\<rceil> - 1)"
    define k where "k = floorlog 2 n"
    from assms have t: "1 < t" "\<bar>x\<bar> = 1 / t" "0 < t" by (simp_all add: t_def)
    then have c: "2 \<le> \<lceil>t\<rceil>" by linarith
    then have n: "0 < n" "real n < t" "t \<le> real n + 1"
      unfolding n_def by linarith+
    from floorlog_bounds [OF n(1), of 2] have b: "2 ^ (k - 1) \<le> n" "n < 2 ^ k"
      by (simp_all add: k_def)
    from n(1) have "k \<noteq> 0" by (simp add: k_def floorlog_eq_zero_iff)
    then have "0 < k" by simp
    then have e: "binade x = - int k" "binade x + 1 = - int (k - 1)"
      using assms by (simp_all add: binade_def n_def k_def t_def)
    from b(1) have "real (2 ^ (k - 1)) \<le> real n" by (simp only: of_nat_le_iff)
    then have "(2::real) ^ (k - 1) \<le> real n" by simp
    with n have lo: "(2::real) ^ (k - 1) < t" by linarith
    from b(2) have "Suc n \<le> 2 ^ k" by simp
    then have "real (Suc n) \<le> real (2 ^ k)" by (simp only: of_nat_le_iff)
    then have "real n + 1 \<le> 2 ^ k" by simp
    with n have hi: "t \<le> 2 ^ k" by linarith
    have p1: "2 powi binade x = 1 / (2::real) ^ k"
      by (simp only: e(1) power_int_minus_divide power_int_of_nat)
    have p2: "2 powi (binade x + 1) = 1 / (2::real) ^ (k - 1)"
      by (simp only: e(2) power_int_minus_divide power_int_of_nat)
    from hi t have "1 / 2 ^ k \<le> 1 / t" by (intro divide_left_mono) simp_all
    moreover from lo t have "1 / t < 1 / 2 ^ (k - 1)" by (intro divide_strict_left_mono) simp_all
    ultimately show ?thesis unfolding p1 p2 t(2) by simp
qed

lemma binade_bounds:
  assumes "x \<noteq> 0"
  shows "2 powi binade x \<le> \<bar>x\<bar>" and "\<bar>x\<bar> < 2 powi (binade x + 1)"
  using binade_bounds_large [of x] binade_bounds_small [of x] assms by blast+

lemma binade_unique:
  assumes "2 powi k \<le> \<bar>x\<bar>" and "\<bar>x\<bar> < 2 powi (k + 1)"
  shows "binade x = k"
proof -
  have "0 < (2::real) powi k" by simp
  from less_le_trans [OF this assms(1)] have "x \<noteq> 0" by simp
  note b = binade_bounds [OF this]
  from b(1) assms(2) have "(2::real) powi binade x < 2 powi (k + 1)" by simp
  then have "binade x < k + 1" by (rule pow2_less_cancel)
  moreover from assms(1) b(2) have "(2::real) powi k < 2 powi (binade x + 1)" by simp
  then have "k < binade x + 1" by (rule pow2_less_cancel)
  ultimately show ?thesis by simp
qed


text \<open>Rounding to the nearest integer, ties to even, is monotone and odd.\<close>

lemma round_half_even_of_int [simp]: "round_half_even (of_int k) = k"
  by (simp add: round_half_even_def)

lemma round_half_even_mono:
  assumes "x \<le> y"
  shows "round_half_even x \<le> round_half_even y"
proof (cases "\<lfloor>x\<rfloor> = \<lfloor>y\<rfloor>")
  case True
  with assms show ?thesis by (auto simp: round_half_even_def Let_def)
next
  case False
  with assms have "\<lfloor>x\<rfloor> + 1 \<le> \<lfloor>y\<rfloor>" using floor_mono [OF assms] by simp
  moreover have "round_half_even x \<le> \<lfloor>x\<rfloor> + 1" "\<lfloor>y\<rfloor> \<le> round_half_even y"
    by (auto simp: round_half_even_def Let_def)
  ultimately show ?thesis by simp
qed

lemma round_half_even_minus: "round_half_even (- y) = - round_half_even y"
proof (cases "y \<in> \<int>")
  case True
  then obtain k where "y = of_int k" by (auto elim: Ints_cases)
  then have "- y = of_int (- k)" by simp
  then show ?thesis unfolding \<open>y = of_int k\<close> by (simp only: round_half_even_of_int)
next
  case False
  then have "y \<noteq> of_int \<lfloor>y\<rfloor>" by (metis Ints_of_int)
  then have f: "\<lfloor>- y\<rfloor> = - \<lfloor>y\<rfloor> - 1"
    by (simp add: floor_minus ceiling_altdef)
  show ?thesis
    unfolding round_half_even_def Let_def f by (auto simp: algebra_simps) 
qed

lemma pow2_add: "(2::real) powi a * 2 powi b = 2 powi (a + b)"
  by (simp add: power_int_add)

lemma pow2_split52: "(2::real) powi 52 * 2 powi (E - 52) = 2 powi E"
proof -
  have "(2::real) powi 52 * 2 powi (E - 52) = 2 powi (52 + (E - 52))" by (rule pow2_add)
  also have "52 + (E - 52) = E" by simp
  finally show ?thesis .
qed

lemma pow2_split53: "(2::real) powi 53 * 2 powi (E - 52) = 2 powi (E + 1)"
proof -
  have "(2::real) powi 53 * 2 powi (E - 52) = 2 powi (53 + (E - 52))" by (rule pow2_add)
  also have "53 + (E - 52) = E + 1" by simp
  finally show ?thesis .
qed


lemma binary64_0 [simp]: "binary64 0 = 0"
  by (simp add: binary64_def)


lemma binary64_minus: "binary64 (- x) = - binary64 x"
  by (simp add: binary64_def binade_def Let_def round_half_even_minus)


text \<open>
  The scaled value of a positive number lies below \<open>2 ^ 53\<close>, and from \<open>2 ^ 52\<close> on when
  the number is normal.
\<close>

lemma scaled_bounds:
  assumes "0 < x"
  defines "E \<equiv> max (binade x) (- 1022)"
  shows "x / 2 powi (E - 52) < 2 powi 53"
    and "- 1022 \<le> binade x \<Longrightarrow> 2 powi 52 \<le> x / 2 powi (E - 52)"
proof -
  from assms have nz: "x \<noteq> 0" and ax: "\<bar>x\<bar> = x" by simp_all
  have u: "0 < (2::real) powi (E - 52)" by simp
  have "x < 2 powi (binade x + 1)" using binade_bounds(2) [OF nz] ax by simp
  also have "\<dots> \<le> 2 powi (E + 1)" by (rule pow2_le_mono) (simp add: E_def)
  also have "\<dots> = 2 powi 53 * 2 powi (E - 52)"
    by (rule pow2_split53 [symmetric])
  finally show "x / 2 powi (E - 52) < 2 powi 53"
    using u by (simp only: pos_divide_less_eq)
  assume "- 1022 \<le> binade x"
  then have "E = binade x" by (simp add: E_def)
  have "2 powi 52 * 2 powi (E - 52) = (2::real) powi E"
    by (rule pow2_split52)
  also have "\<dots> \<le> x" using binade_bounds(1) [OF nz] ax \<open>E = binade x\<close> by simp
  finally show "2 powi 52 \<le> x / 2 powi (E - 52)"
    using u by (simp only: pos_le_divide_eq)
qed

lemma binary64_pos:
  "0 < x \<Longrightarrow>
     binary64 x = of_int (round_half_even (x / 2 powi (max (binade x) (- 1022) - 52)))
                    * 2 powi (max (binade x) (- 1022) - 52)"
  by (simp add: binary64_def Let_def)

lemma binary64_nonneg:
  assumes "0 \<le> x"
  shows "0 \<le> binary64 x"
proof (cases "x = 0")
  case True
  then show ?thesis by (simp add: binary64_def)
next
  case False
  with assms have x: "0 < x" by simp
  have "round_half_even 0 \<le> round_half_even (x / 2 powi (max (binade x) (- 1022) - 52))"
    by (rule round_half_even_mono) (use x in simp)
  then have "0 \<le> round_half_even (x / 2 powi (max (binade x) (- 1022) - 52))"
    using round_half_even_of_int [of 0] by simp
  then show ?thesis unfolding binary64_pos [OF x] by simp
qed

lemma binade_mono_pos:
  assumes "0 < x" "x \<le> y"
  shows "binade x \<le> binade y"
proof -
  from assms have nz: "x \<noteq> 0" "y \<noteq> 0" and a: "\<bar>x\<bar> = x" "\<bar>y\<bar> = y" by simp_all
  from binade_bounds(1) [OF nz(1)] binade_bounds(2) [OF nz(2)] assms a
  have "(2::real) powi binade x < 2 powi (binade y + 1)" by simp
  from pow2_less_cancel [OF this] show ?thesis by simp
qed

lemma binary64_mono_pos:
  assumes "0 < x" "x \<le> y"
  shows "binary64 x \<le> binary64 y"
proof -
  define Ex where "Ex = max (binade x) (- 1022)"
  define Ey where "Ey = max (binade y) (- 1022)"
  from assms have y: "0 < y" by simp
  have E: "Ex \<le> Ey" unfolding Ex_def Ey_def using binade_mono_pos [OF assms] by simp
  note bx = binary64_pos [OF assms(1), folded Ex_def]
  note by' = binary64_pos [OF y, folded Ey_def]
  show ?thesis
  proof (cases "Ex = Ey")
    case True
    have "x / 2 powi (Ey - 52) \<le> y / 2 powi (Ey - 52)"
      using assms by (simp add: divide_right_mono)
    from round_half_even_mono [OF this] show ?thesis
      unfolding bx by' True by (simp add: mult_right_mono)
  next
    case False
    with E have lt: "Ex + 1 \<le> Ey" by simp
    then have "- 1022 < Ey" unfolding Ex_def by simp
    then have normal: "- 1022 \<le> binade y" unfolding Ey_def by simp
    from scaled_bounds(2) [OF y normal, folded Ey_def]
    have "round_half_even (2 powi 52) \<le> round_half_even (y / 2 powi (Ey - 52))"
      by (rule round_half_even_mono)
    moreover have "round_half_even (2 powi 52) = 2 ^ 52"
      using round_half_even_of_int [of "2 ^ 52"] by simp
    ultimately have "(2::real) powi 52 \<le> of_int (round_half_even (y / 2 powi (Ey - 52)))"
      by simp
    then have "2 powi 52 * 2 powi (Ey - 52) \<le> binary64 y"
      unfolding by' by (intro mult_right_mono) simp_all
    then have low: "2 powi Ey \<le> binary64 y"
      by (simp only: pow2_split52)
    from scaled_bounds(1) [OF assms(1), folded Ex_def]
    have "round_half_even (x / 2 powi (Ex - 52)) \<le> round_half_even (2 powi 53)"
      by (intro round_half_even_mono) simp
    moreover have "round_half_even (2 powi 53) = 2 ^ 53"
      using round_half_even_of_int [of "2 ^ 53"] by simp
    ultimately have "of_int (round_half_even (x / 2 powi (Ex - 52))) \<le> (2::real) powi 53"
      by simp
    then have "binary64 x \<le> 2 powi 53 * 2 powi (Ex - 52)"
      unfolding bx by (intro mult_right_mono) simp_all
    then have "binary64 x \<le> 2 powi (Ex + 1)"
      by (simp only: pow2_split53)
    also have "\<dots> \<le> 2 powi Ey" using lt by (rule pow2_le_mono)
    finally show ?thesis using low by simp
  qed
qed

lemma binary64_mono:
  assumes "x \<le> y"
  shows "binary64 x \<le> binary64 y"
proof -
  consider "0 < x" | "x \<le> 0" "0 \<le> y" | "y < 0" by linarith
  then show ?thesis
  proof cases
    case 1
    from 1 assms show ?thesis by (rule binary64_mono_pos)
  next
    case 2
    from binary64_nonneg [of "- x"] 2 have "binary64 x \<le> 0" by (simp add: binary64_minus)
    with binary64_nonneg [OF 2(2)] show ?thesis by simp
  next
    case 3
    with assms have "0 < - y" "- y \<le> - x" by simp_all
    from binary64_mono_pos [OF this] show ?thesis by (simp add: binary64_minus)
  qed
qed

lemma quotient_from_product: "c \<noteq> 0 \<Longrightarrow> a * c = b \<Longrightarrow> b / c = (a::real)"
  by (auto simp: field_simps)

lemma binary64_idem_pos:
  assumes x: "0 < x"
  shows "binary64 (binary64 x) = binary64 x"
proof -
  define E where "E = max (binade x) (- 1022)"
  define u :: real where "u = 2 powi (E - 52)"
  define m where "m = round_half_even (x / u)"
  define v where "v = binary64 x"
  have u: "0 < u" by (simp add: u_def)
  have v: "v = of_int m * u"
    unfolding v_def m_def u_def E_def by (rule binary64_pos [OF x])
  have E: "- 1022 \<le> E" by (simp add: E_def)
  have "round_half_even 0 \<le> m" unfolding m_def
    by (rule round_half_even_mono) (use x u in simp)
  then have m0: "0 \<le> m" using round_half_even_of_int [of 0] by simp
  from scaled_bounds(1) [OF x, folded E_def u_def]
  have "m \<le> round_half_even (2 powi 53)" unfolding m_def
    by (intro round_half_even_mono) simp
  moreover have "round_half_even (2 powi 53) = 2 ^ 53"
    using round_half_even_of_int [of "2 ^ 53"] by simp
  ultimately have m53: "m \<le> 2 ^ 53" by simp
  consider "m = 0" | "m = 2 ^ 53" | "0 < m" "m < 2 ^ 53" using m0 m53 by linarith
  then have "binary64 v = v"
  proof cases
    case 1
    then show ?thesis by (simp add: v binary64_def)
  next
    case 2
    then have "v = 2 powi 53 * u" by (simp add: v)
    then have v2: "v = 2 powi (E + 1)" by (simp only: u_def pow2_split53)
    then have vpos: "0 < v" by simp
    have "binade v = E + 1"
    proof (rule binade_unique)
      show "2 powi (E + 1) \<le> \<bar>v\<bar>" by (simp add: v2)
      have "(2::real) powi (E + 1) < 2 powi (E + 1 + 1)"
        by (rule power_int_strict_increasing) simp_all
      then show "\<bar>v\<bar> < 2 powi (E + 1 + 1)" by (simp add: v2)
    qed
    with E have mx: "max (binade v) (- 1022) = E + 1" by simp
    have "(2::real) powi (E + 1 - 52) \<noteq> 0" by simp
    then have q: "v / 2 powi (E + 1 - 52) = 2 powi 52"
      unfolding v2 by (rule quotient_from_product) (rule pow2_split52)
    have "round_half_even (2 powi 52) = 2 ^ 52"
      using round_half_even_of_int [of "2 ^ 52"] by simp
    then have "binary64 v = 2 powi 52 * 2 powi (E + 1 - 52)"
      unfolding binary64_pos [OF vpos] mx q by simp
    then show ?thesis by (simp only: pow2_split52 v2)
  next
    case 3
    from 3(1) u have vpos: "0 < v" by (simp add: v)
    from 3(2) have "real_of_int m < 2 ^ 53"
      by (metis of_int_less_iff of_int_numeral of_int_power)
    then have "v < 2 powi 53 * u" unfolding v using u by simp
    then have vlt: "v < 2 powi (E + 1)" by (simp only: u_def pow2_split53)
    have "(2::real) powi binade v \<le> v"
      using binade_bounds(1) [of v] vpos by simp
    with vlt have "(2::real) powi binade v < 2 powi (E + 1)" by simp
    then have up: "binade v \<le> E" using pow2_less_cancel by fastforce
    have mx: "max (binade v) (- 1022) = E"
    proof (cases "- 1022 \<le> binade x")
      case True
      then have "E = binade x" by (simp add: E_def)
      from scaled_bounds(2) [OF x True, folded E_def u_def]
      have "round_half_even (2 powi 52) \<le> m" unfolding m_def
        by (rule round_half_even_mono)
      moreover have "round_half_even (2 powi 52) = 2 ^ 52"
        using round_half_even_of_int [of "2 ^ 52"] by simp
      ultimately have "(2::real) powi 52 \<le> of_int m" by simp
      then have "2 powi 52 * u \<le> v" unfolding v using u by simp
      then have "2 powi E \<le> v" by (simp only: u_def pow2_split52)
      with vlt vpos have "binade v = E" by (intro binade_unique) simp_all
      with E show ?thesis by simp
    next
      case False
      then have "E = - 1022" by (simp add: E_def)
      with up show ?thesis by simp
    qed
    have "v / 2 powi (E - 52) = of_int m" unfolding v u_def by simp
    then show ?thesis
      unfolding binary64_pos [OF vpos] mx by (simp add: v u_def)
  qed
  then show ?thesis by (simp add: v_def)
qed

lemma binary64_idem: "binary64 (binary64 x) = binary64 x"
proof -
  consider "x = 0" | "0 < x" | "0 < - x" by linarith
  then show ?thesis
  proof cases
    case 1
    then show ?thesis by (simp add: binary64_def)
  next
    case 2
    then show ?thesis by (rule binary64_idem_pos)
  next
    case 3
    from binary64_idem_pos [OF this] show ?thesis by (simp add: binary64_minus)
  qed
qed


text \<open>Double precision and exact arithmetic are both roundings.\<close>

lemma rounding_binary64: "rounding binary64"
  unfolding rounding_def using binary64_mono binary64_idem by (simp add: binary64_def)

lemma rounding_exact: "rounding (\<lambda>x. x)"
  by (simp add: rounding_def)


text \<open>
  Rewrite rules that compute \<open>binary64\<close> of a rational number. The tables of roundings
  below list, for one evaluated example each, the roundings that the run performs.
\<close>

lemma floorlog_numeral:
  "floorlog 2 (numeral a) = floorlog 2 (numeral a div 2) + 1"
  "floorlog 2 1 = 1"
  "floorlog 2 (Suc 0) = 1"
  by (subst compute_floorlog, simp)+

lemmas binary64_eval = binary64_def binade_def floorlog_numeral round_half_even_def Let_def


subsection \<open>What a rounding preserves\<close>

lemma rounding_zero: "rounding rnd \<Longrightarrow> rnd 0 = 0"
  by (simp add: rounding_def)

lemma rounding_mono: "rounding rnd \<Longrightarrow> x \<le> y \<Longrightarrow> rnd x \<le> rnd y"
  by (simp add: rounding_def)

lemma rounding_idem: "rounding rnd \<Longrightarrow> rnd (rnd x) = rnd x"
  by (simp add: rounding_def)

lemma rounding_nonneg: "rounding rnd \<Longrightarrow> 0 \<le> x \<Longrightarrow> 0 \<le> rnd x"
  using rounding_mono [of rnd 0 x] by (simp add: rounding_zero)

lemma rounding_ge_fixed: "rounding rnd \<Longrightarrow> rnd x = x \<Longrightarrow> x \<le> y \<Longrightarrow> x \<le> rnd y"
  using rounding_mono [of rnd x y] by simp

lemma monthly_rate_fl_nonneg:
  "rounding rnd \<Longrightarrow> 0 \<le> a \<Longrightarrow> 0 \<le> monthly_rate_fl rnd a"
  by (simp add: monthly_rate_fl_def rounding_nonneg)

lemma cents_fl_mono:
  assumes "rounding rnd" "x \<le> y"
  shows "rnd (Math_round (rnd (x * 100)) / 100) \<le> rnd (Math_round (rnd (y * 100)) / 100)"
proof -
  from assms have "rnd (x * 100) \<le> rnd (y * 100)" by (simp add: rounding_mono)
  then have "Math_round (rnd (x * 100)) / 100 \<le> Math_round (rnd (y * 100)) / 100"
    by (simp add: Math_round_mono divide_right_mono)
  with assms(1) show ?thesis by (rule rounding_mono)
qed

lemma cents_fl_nonneg:
  assumes "rounding rnd" "0 \<le> x"
  shows "0 \<le> rnd (Math_round (rnd (x * 100)) / 100)"
proof -
  from assms have "0 \<le> rnd (x * 100)" by (simp add: rounding_nonneg)
  then have "0 \<le> Math_round (rnd (x * 100))" by (simp add: Math_round_def)
  with assms(1) show ?thesis by (simp add: rounding_nonneg)
qed


subsection \<open>The loops\<close>

lemma prepay_loop_fl_stop:
  "\<not> (fst st > 1 \<and> snd (snd st) < cap) \<Longrightarrow> prepay_loop_fl rnd r e a p cap st = st"
  by (subst prepay_loop_fl.simps) auto

lemma prepay_loop_fl_continue:
  "fst st > 1 \<Longrightarrow> snd (snd st) < cap \<Longrightarrow>
     prepay_loop_fl rnd r e a p cap st =
       prepay_loop_fl rnd r e a p cap (prepay_step_fl rnd r e a p st)"
  by (subst prepay_loop_fl.simps) auto

lemma prepay_step_fl_months [simp]:
  "snd (snd (prepay_step_fl rnd r e a p st)) = snd (snd st) + 1"
  by (simp add: prepay_step_fl_def Let_def split: prod.splits)

lemma prepay_loop_fl_months_le:
  "snd (snd st) \<le> cap \<Longrightarrow> snd (snd (prepay_loop_fl rnd r e a p cap st)) \<le> cap"
proof (induction rnd r e a p cap st rule: prepay_loop_fl.induct)
  case (1 rnd r e a p cap st)
  show ?case
  proof (cases "fst st > 1 \<and> snd (snd st) < cap")
    case True
    then have "snd (snd (prepay_step_fl rnd r e a p st)) \<le> cap" by simp
    with True "1.IH" show ?thesis by (simp add: prepay_loop_fl_continue)
  next
    case False
    with "1.prems" show ?thesis by (simp add: prepay_loop_fl_stop)
  qed
qed

lemma prepay_loop_fl_months_ge:
  "snd (snd st) \<le> snd (snd (prepay_loop_fl rnd r e a p cap st))"
proof (induction rnd r e a p cap st rule: prepay_loop_fl.induct)
  case (1 rnd r e a p cap st)
  show ?case
  proof (cases "fst st > 1 \<and> snd (snd st) < cap")
    case True
    with "1.IH" show ?thesis by (simp add: prepay_loop_fl_continue)
  next
    case False
    then show ?thesis by (simp add: prepay_loop_fl_stop)
  qed
qed

lemma loan_interest_loop_fl_stop:
  "\<not> (fst st > rnd (1 / 100) \<and> snd (snd st) < 600) \<Longrightarrow>
     loan_interest_loop_fl rnd r e st = st"
  by (subst loan_interest_loop_fl.simps) auto

lemma loan_interest_loop_fl_break:
  "rnd (e - rnd (fst st * r)) \<le> 0 \<Longrightarrow> loan_interest_loop_fl rnd r e st = st"
  by (subst loan_interest_loop_fl.simps) (auto simp: Let_def)

lemma loan_interest_loop_fl_continue:
  "fst st > rnd (1 / 100) \<Longrightarrow> snd (snd st) < 600 \<Longrightarrow> rnd (e - rnd (fst st * r)) > 0 \<Longrightarrow>
     loan_interest_loop_fl rnd r e st =
       loan_interest_loop_fl rnd r e
         (rnd (fst st - rnd (e - rnd (fst st * r))), rnd (fst (snd st) + rnd (fst st * r)),
          snd (snd st) + 1)"
  by (subst loan_interest_loop_fl.simps) (auto simp: Let_def)

lemma strategy_loop_fl_stop:
  "\<not> (fcard p < length ls \<and> m < 600) \<Longrightarrow>
     strategy_loop_fl rnd ls ord sur (b, p, t, m) = (b, p, t, m)"
  by (subst strategy_loop_fl.simps) auto

lemma strategy_loop_fl_no_priority:
  "find (\<lambda>name. name |\<notin>| p) ord = None \<Longrightarrow>
     strategy_loop_fl rnd ls ord sur (b, p, t, m) = (b, p, t, m)"
  by (subst strategy_loop_fl.simps) auto

lemma strategy_loop_fl_unfold:
  "fcard p < length ls \<Longrightarrow> m < 600 \<Longrightarrow>
   strategy_loop_fl rnd ls ord sur (b, p, t, m) =
     (case find (\<lambda>name. name |\<notin>| p) ord of
        None \<Rightarrow> (b, p, t, m)
      | Some prio \<Rightarrow>
          if prio = [] then (b, p, t, m)
          else let st' = fold (pay_loan_fl rnd prio) ls (b, p, t, freed_up_extra_fl rnd ls p sur)
               in strategy_loop_fl rnd ls ord sur
                    (fst st', fst (snd st'), fst (snd (snd st')), m + 1))"
  by (subst strategy_loop_fl.simps) (auto simp: Let_def split: option.splits)


text \<open>Rewrite rules that run the simulations on concrete inputs.\<close>

lemmas prepay_fl_eval = calculateLoanPrepaymentImpact_fl_def calculatePMT_fl_def
  prepay_loop_fl_continue prepay_loop_fl_stop prepay_step_fl_def Let_def Math_round_def


lemmas strategy_fl_eval = calculateStrategyInterest_fl_def initial_balances_def
  strategy_loop_fl_unfold strategy_loop_fl_stop strategy_loop_fl_no_priority freed_up_extra_fl_def
  pay_loan_fl_def monthly_rate_fl_def Let_def Math_round_def fcard_fempty fcard_finsert_if

lemmas baseline_fl_eval = calculateBaselineInterest_fl_def calculateLoanInterest_fl_def
  monthly_rate_fl_def loan_interest_loop_fl_continue loan_interest_loop_fl_stop
  loan_interest_loop_fl_break Math_round_def



lemma single_loan_orders:
  "generateAvalancheOrder_fl rnd [l] = [loan_name l]"
  "generateSnowballOrder_fl rnd [l] = [loan_name l]"
  by (simp_all add: generateAvalancheOrder_fl_def generateSnowballOrder_fl_def Array_sort_def)

lemma optimize_fl_returns_iff:
  "(\<exists>res. optimizeDebtRepayment_fl rnd d = Inr res) \<longleftrightarrow> valid_debt_input d"
  by (auto simp: valid_debt_input_def optimizeDebtRepayment_fl_def Let_def list_ex_iff
        list_all_iff invalid_loan_iff)


subsection \<open>The exact embedding is the machine embedding without rounding\<close>

lemma prepay_step_fl_exact: "prepay_step_fl (\<lambda>x. x) = prepay_step"
  by (intro ext) (simp add: prepay_step_fl_def prepay_step_def Let_def)

lemma prepay_loop_fl_exact:
  "prepay_loop_fl (\<lambda>x. x) r e a p cap st = prepay_loop r e a p cap st"
proof (induction r e a p cap st rule: prepay_loop.induct)
  case (1 r e a p cap st)
  show ?case
  proof (cases "fst st > 1 \<and> snd (snd st) < cap")
    case True
    with "1.IH" show ?thesis
      by (simp add: prepay_loop_fl_continue prepay_loop_continue prepay_step_fl_exact)
  next
    case False
    then show ?thesis by (simp add: prepay_loop_fl_stop prepay_loop_stop)
  qed
qed

lemma calculateLoanPrepaymentImpact_fl_exact:
  "calculateLoanPrepaymentImpact_fl (\<lambda>x. x) (\<lambda>x n. x ^ nat n) i = calculateLoanPrepaymentImpact i"
  by (simp add: calculateLoanPrepaymentImpact_fl_def calculateLoanPrepaymentImpact_def
        calculatePMT_fl_def calculatePMT_def prepay_loop_fl_exact Let_def)


lemma loan_interest_loop_fl_exact:
  "loan_interest_loop_fl (\<lambda>x. x) r e st = loan_interest_loop r e st"
proof (induction "nat (600 - snd (snd st))" arbitrary: st rule: less_induct)
  case less
  show ?case
  proof (cases "fst st > 1 / 100 \<and> snd (snd st) < 600 \<and> 0 < e - fst st * r")
    case True
    then have "nat (600 - (snd (snd st) + 1)) < nat (600 - snd (snd st))" by simp
    from less.hyps [of "(fst st - (e - fst st * r), fst (snd st) + fst st * r, snd (snd st) + 1)"]
      this True
    show ?thesis
      by (simp add: loan_interest_loop_fl_continue loan_interest_loop_continue)
  next
    case False
    then show ?thesis
      by (cases "fst st > 1 / 100 \<and> snd (snd st) < 600")
         (simp_all add: loan_interest_loop_fl_stop loan_interest_loop_stop
            loan_interest_loop_fl_break loan_interest_loop_break not_less)
  qed
qed

lemma pay_loan_fl_exact: "pay_loan_fl (\<lambda>x. x) = pay_loan"
  by (intro ext) (simp add: pay_loan_fl_def pay_loan_def monthly_rate_fl_def Let_def
        split: prod.splits)

lemma freed_up_extra_fl_exact: "freed_up_extra_fl (\<lambda>x. x) = freed_up_extra"
  by (intro ext) (simp add: freed_up_extra_fl_def freed_up_extra_def)

lemma strategy_loop_fl_exact:
  "strategy_loop_fl (\<lambda>x. x) ls ord sur st = strategy_loop ls ord sur st"
proof (induction "nat (600 - snd (snd (snd st)))" arbitrary: st rule: less_induct)
  case less
  obtain b p t m where st: "st = (b, p, t, m)" by (cases st) auto
  show ?case
  proof (cases "fcard p < length ls \<and> m < 600")
    case True
    then have "strategy_loop_fl (\<lambda>x. x) ls ord sur (b', p', t', m + 1)
                 = strategy_loop ls ord sur (b', p', t', m + 1)" for b' p' t'
      by (intro less.hyps) (simp add: st)
    with True show ?thesis
      unfolding st
      by (simp add: strategy_loop_fl_unfold strategy_loop_unfold pay_loan_fl_exact
            freed_up_extra_fl_exact Let_def split: option.splits)
  next
    case False
    then show ?thesis by (simp add: st strategy_loop_fl_stop strategy_loop_stop)
  qed
qed

lemma optimizeDebtRepayment_fl_exact:
  "optimizeDebtRepayment_fl (\<lambda>x. x) d = optimizeDebtRepayment d"
proof -
  have "avalanche_compare_fl (\<lambda>x. x) = avalanche_compare"
    "snowball_compare_fl (\<lambda>x. x) = snowball_compare"
    by (intro ext, simp add: avalanche_compare_fl_def avalanche_compare_def
          snowball_compare_fl_def snowball_compare_def)+
  moreover have "calculateStrategyInterest_fl (\<lambda>x. x) = calculateStrategyInterest"
    by (intro ext) (simp add: calculateStrategyInterest_fl_def calculateStrategyInterest_def
          strategy_loop_fl_exact)
  moreover have "calculateBaselineInterest_fl (\<lambda>x. x) = calculateBaselineInterest"
    by (intro ext) (simp add: calculateBaselineInterest_fl_def calculateBaselineInterest_def
          calculateLoanInterest_fl_def calculateLoanInterest_def monthly_rate_fl_def
          loan_interest_loop_fl_exact)
  moreover have "decide_fl (\<lambda>x. x) = decide"
    by (intro ext) (simp add: decide_fl_def decide_def)
  ultimately show ?thesis
    by (simp add: optimizeDebtRepayment_fl_def optimizeDebtRepayment_def
          generateAvalancheOrder_fl_def generateSnowballOrder_fl_def
          generateAvalancheOrder_def generateSnowballOrder_def Let_def)
qed


subsection \<open>The payoff and the original tenure\<close>

lemma prepayment_fl_result:
  assumes "valid_prepayment_input i"
  shows "\<exists>res. calculateLoanPrepaymentImpact_fl rnd Math_pow i = Inr res
           \<and> original_tenure_months res = loanTenureMonths i
           \<and> (\<exists>r e. new_tenure_months res =
                 snd (snd (prepay_loop_fl rnd r e (prepaymentAmount i) (prepaymentMonth i)
                             (loanTenureMonths i * 2) (loanPrincipal i, 0, 0))))
           \<and> tenure_reduction_months res
               = max 0 (original_tenure_months res - new_tenure_months res)"
  using assms
  by (auto simp: valid_prepayment_input_def calculateLoanPrepaymentImpact_fl_def Let_def)


text \<open>
  C10, as amended. \<open>new_tenure_months\<close> is not always at most
  \<open>original_tenure_months\<close>: the EMI is a rounded quotient, and the balance that the
  rounded payments leave after the original tenure can exceed the stopping threshold of
  1. What holds for every valid input, whatever the rounding and whatever \<^verbatim>\<open>Math.pow\<close>
  returns: a result is returned, \<open>new_tenure_months\<close> lies between 0 and twice the
  original tenure, and \<open>tenure_reduction_months\<close> is the clamped difference, so that it
  is 0 when the payoff takes longer than the original tenure. When no operation rounds,
  \<open>new_tenure_months\<close> is at most \<open>original_tenure_months\<close>.
\<close>

theorem payoff_within_twice_tenure:
  assumes "valid_prepayment_input i"
  shows "\<exists>res. calculateLoanPrepaymentImpact_fl rnd Math_pow i = Inr res
           \<and> original_tenure_months res = loanTenureMonths i
           \<and> 0 \<le> new_tenure_months res
           \<and> new_tenure_months res \<le> 2 * original_tenure_months res
           \<and> tenure_reduction_months res
               = max 0 (original_tenure_months res - new_tenure_months res)
           \<and> ((\<forall>x. rnd x = x) \<and> (\<forall>x n. Math_pow x n = x ^ nat n)
                 \<longrightarrow> new_tenure_months res \<le> original_tenure_months res)"
proof -
  from prepayment_fl_result [OF assms, of rnd Math_pow] obtain res r e where
    res: "calculateLoanPrepaymentImpact_fl rnd Math_pow i = Inr res"
      "original_tenure_months res = loanTenureMonths i"
      "new_tenure_months res =
         snd (snd (prepay_loop_fl rnd r e (prepaymentAmount i) (prepaymentMonth i)
                     (loanTenureMonths i * 2) (loanPrincipal i, 0, 0)))"
      "tenure_reduction_months res = max 0 (original_tenure_months res - new_tenure_months res)"
    by blast
  from assms have n: "0 < loanTenureMonths i" by (simp add: valid_prepayment_input_def)
  have "new_tenure_months res \<le> loanTenureMonths i * 2"
    unfolding res(3) using n by (intro prepay_loop_fl_months_le) simp
  moreover have "0 \<le> new_tenure_months res"
    unfolding res(3)
    using prepay_loop_fl_months_ge [of "(loanPrincipal i, 0, 0)" rnd r e "prepaymentAmount i"
        "prepaymentMonth i" "loanTenureMonths i * 2"]
    by simp
  moreover have "new_tenure_months res \<le> original_tenure_months res"
    if ex: "\<forall>x. rnd x = x" "\<forall>x n. Math_pow x n = x ^ nat n"
  proof -
    from ex have "rnd = (\<lambda>x. x)" "Math_pow = (\<lambda>x n. x ^ nat n)" by (auto intro!: ext)
    with res(1) have "calculateLoanPrepaymentImpact i = Inr res"
      by (simp add: calculateLoanPrepaymentImpact_fl_exact)
    with prepay_loop_within_tenure [OF assms, of "loanTenureMonths i * 2"] show ?thesis
      unfolding prepayment_result [OF assms] by auto
  qed
  ultimately show ?thesis using res by auto
qed


text \<open>
  A principal of \<open>10 ^ 17\<close> at rate 0 over 3 months, with a prepayment of 1 in month 3.
  The EMI \<open>10 ^ 17 / 3\<close> rounds to 33333333333333332, the balances after the three
  months are 66666666666666672, 33333333333333340 and 8, and a fourth month is
  simulated. \<^verbatim>\<open>Math.pow\<close> is not called at rate 0.
\<close>

lemma huge_principal_roundings:
  "binary64 8 = 8"
  "binary64 33333333333333332 = 33333333333333332"
  "binary64 33333333333333333 = 33333333333333332"
  "binary64 (100000000000000000 / 3) = 33333333333333332"
  "binary64 33333333333333340 = 33333333333333340"
  "binary64 66666666666666668 = 66666666666666672"
  "binary64 99999999999999996 = 100000000000000000"
  by (simp_all add: binary64_eval)

lemma example_huge_principal:
  "calculateLoanPrepaymentImpact_fl binary64 pow_binary64
     \<lparr>loanPrincipal = 100000000000000000, annualInterestRate = 0, loanTenureMonths = 3,
      monthlyEMI = 0, outstandingPrincipal = 0, prepaymentAmount = 1, prepaymentMonth = 3\<rparr>
     = Inr \<lparr>interest_before_prepayment = 0, interest_after_prepayment = 0,
          interest_saved = 0, original_tenure_months = 3, new_tenure_months = 4,
          tenure_reduction_months = 0, summary = Summary 1 3 0 0\<rparr>"
  by (simp add: prepay_fl_eval huge_principal_roundings)

lemma example_prepayment_exact:
  "calculateLoanPrepaymentImpact_fl (\<lambda>x. x) (\<lambda>x n. x ^ nat n)
     \<lparr>loanPrincipal = 1200, annualInterestRate = 12, loanTenureMonths = 3, monthlyEMI = 0,
      outstandingPrincipal = 0, prepaymentAmount = 600, prepaymentMonth = 1\<rparr>
     = Inr \<lparr>interest_before_prepayment = 24, interest_after_prepayment = 14,
          interest_saved = 10, original_tenure_months = 3, new_tenure_months = 2,
          tenure_reduction_months = 1, summary = Summary 600 1 10 1\<rparr>"
  by (simp add: calculateLoanPrepaymentImpact_fl_exact example_prepayment)

theorem payoff_within_twice_tenure_witness:
  "valid_prepayment_input
     \<lparr>loanPrincipal = 100000000000000000, annualInterestRate = 0, loanTenureMonths = 3,
      monthlyEMI = 0, outstandingPrincipal = 0, prepaymentAmount = 1, prepaymentMonth = 3\<rparr>
   \<and> calculateLoanPrepaymentImpact_fl binary64 pow_binary64
     \<lparr>loanPrincipal = 100000000000000000, annualInterestRate = 0, loanTenureMonths = 3,
      monthlyEMI = 0, outstandingPrincipal = 0, prepaymentAmount = 1, prepaymentMonth = 3\<rparr>
     = Inr \<lparr>interest_before_prepayment = 0, interest_after_prepayment = 0,
          interest_saved = 0, original_tenure_months = 3, new_tenure_months = 4,
          tenure_reduction_months = 0, summary = Summary 1 3 0 0\<rparr>
   \<and> (0::int) \<le> 4 \<and> (4::int) \<le> 2 * 3 \<and> (0::int) = max 0 (3 - 4)
   \<and> valid_prepayment_input
     \<lparr>loanPrincipal = 1200, annualInterestRate = 12, loanTenureMonths = 3, monthlyEMI = 0,
      outstandingPrincipal = 0, prepaymentAmount = 600, prepaymentMonth = 1\<rparr>
   \<and> calculateLoanPrepaymentImpact_fl (\<lambda>x. x) (\<lambda>x n. x ^ nat n)
     \<lparr>loanPrincipal = 1200, annualInterestRate = 12, loanTenureMonths = 3, monthlyEMI = 0,
      outstandingPrincipal = 0, prepaymentAmount = 600, prepaymentMonth = 1\<rparr>
     = Inr \<lparr>interest_before_prepayment = 24, interest_after_prepayment = 14,
          interest_saved = 10, original_tenure_months = 3, new_tenure_months = 2,
          tenure_reduction_months = 1, summary = Summary 600 1 10 1\<rparr>
   \<and> (2::int) \<le> 3 \<and> (1::int) = max 0 (3 - 2)"
  using payoff_within_twice_tenure [of
      "\<lparr>loanPrincipal = 100000000000000000, annualInterestRate = 0, loanTenureMonths = 3,
        monthlyEMI = 0, outstandingPrincipal = 0, prepaymentAmount = 1, prepaymentMonth = 3\<rparr>"
      binary64 pow_binary64]
    payoff_within_twice_tenure [of
      "\<lparr>loanPrincipal = 1200, annualInterestRate = 12, loanTenureMonths = 3, monthlyEMI = 0,
        outstandingPrincipal = 0, prepaymentAmount = 600, prepaymentMonth = 1\<rparr>"
      "\<lambda>x. x" "\<lambda>x n. x ^ nat n"]
  by (simp add: example_huge_principal example_prepayment_exact valid_prepayment_input_def)


text \<open>
  The claim C10 as it is stated fails in double precision: on the valid input above
  \<open>new_tenure_months\<close> is 4 and \<open>original_tenure_months\<close> is 3, and the clamp of
  \<open>tenure_reduction_months\<close> binds.
\<close>

theorem payoff_can_exceed_original_tenure:
  "valid_prepayment_input
     \<lparr>loanPrincipal = 100000000000000000, annualInterestRate = 0, loanTenureMonths = 3,
      monthlyEMI = 0, outstandingPrincipal = 0, prepaymentAmount = 1, prepaymentMonth = 3\<rparr>
   \<and> calculateLoanPrepaymentImpact_fl binary64 pow_binary64
     \<lparr>loanPrincipal = 100000000000000000, annualInterestRate = 0, loanTenureMonths = 3,
      monthlyEMI = 0, outstandingPrincipal = 0, prepaymentAmount = 1, prepaymentMonth = 3\<rparr>
     = Inr \<lparr>interest_before_prepayment = 0, interest_after_prepayment = 0,
          interest_saved = 0, original_tenure_months = 3, new_tenure_months = 4,
          tenure_reduction_months = 0, summary = Summary 1 3 0 0\<rparr>
   \<and> new_tenure_months
       \<lparr>interest_before_prepayment = 0, interest_after_prepayment = 0,
        interest_saved = 0, original_tenure_months = 3, new_tenure_months = 4,
        tenure_reduction_months = 0, summary = Summary 1 3 0 0\<rparr>
     > original_tenure_months
       \<lparr>interest_before_prepayment = 0, interest_after_prepayment = 0,
        interest_saved = 0, original_tenure_months = 3, new_tenure_months = 4,
        tenure_reduction_months = 0, summary = Summary 1 3 0 0\<rparr>"
  by (simp add: example_huge_principal valid_prepayment_input_def)


subsection \<open>The decision policy\<close>












subsection \<open>The interest saved on a single loan\<close>

text \<open>The baseline loop only adds to its total.\<close>

lemma loan_interest_loop_fl_total_grows:
  assumes "rounding rnd" "0 \<le> r"
  shows "rnd T = T \<Longrightarrow> T \<le> fst (snd (loan_interest_loop_fl rnd r e (b, T, m)))"
proof (induction "nat (600 - m)" arbitrary: b T m rule: less_induct)
  case less
  show ?case
  proof (cases "b > rnd (1 / 100) \<and> m < 600 \<and> 0 < rnd (e - rnd (b * r))")
    case True
    from assms(1) have "0 \<le> rnd (1 / 100)" by (simp add: rounding_nonneg)
    with True have "0 \<le> b * r" using assms(2) by simp
    with assms(1) have "0 \<le> rnd (b * r)" by (rule rounding_nonneg)
    with rounding_mono [OF assms(1), of T "T + rnd (b * r)"] less.prems
    have 1: "T \<le> rnd (T + rnd (b * r))" by simp
    from True have "nat (600 - (m + 1)) < nat (600 - m)" by simp
    from less.hyps [OF this, of "rnd (T + rnd (b * r))" "rnd (b - rnd (e - rnd (b * r)))"] assms(1)
    have "rnd (T + rnd (b * r))
            \<le> fst (snd (loan_interest_loop_fl rnd r e
                  (rnd (b - rnd (e - rnd (b * r))), rnd (T + rnd (b * r)), m + 1)))"
      by (simp add: rounding_idem)
    with 1 True show ?thesis by (simp add: loan_interest_loop_fl_continue)
  next
    case False
    then have "loan_interest_loop_fl rnd r e (b, T, m) = (b, T, m)"
      by (cases "b > rnd (1 / 100) \<and> m < 600")
         (simp_all add: loan_interest_loop_fl_stop loan_interest_loop_fl_break not_less)
    then show ?thesis by simp
  qed
qed


text \<open>One month of the strategy simulation of a single loan.\<close>

lemma single_loan_month:
  assumes "loan_name l \<noteq> []" "m < 600" "bals (loan_name l) = Some s"
  shows "strategy_loop_fl rnd [l] [loan_name l] S (bals, {||}, Ts, m) =
     (if s \<le> rnd (1 / 100) then (bals, {|loan_name l|}, Ts, m + 1)
      else let i = rnd (s * monthly_rate_fl rnd (annual_interest_rate l));
               nb = rnd (s - min (rnd (monthly_emi l - i)) s);
               nb' = (if S > 0 \<and> nb > rnd (1 / 100) then rnd (nb - min S nb) else nb)
           in if nb' \<le> rnd (1 / 100)
              then (bals(loan_name l \<mapsto> max 0 nb'), {|loan_name l|}, rnd (Ts + i), m + 1)
              else strategy_loop_fl rnd [l] [loan_name l] S
                     (bals(loan_name l \<mapsto> max 0 nb'), {||}, rnd (Ts + i), m + 1))"
  using assms
  by (simp add: strategy_loop_fl_unfold strategy_loop_fl_stop fcard_fempty fcard_finsert_if
        pay_loan_fl_def freed_up_extra_fl_def Let_def)


text \<open>
  A single loan whose EMI exceeds the interest of the month: the strategy simulation and
  the baseline loop run side by side, the strategy at a balance and a total that are
  never larger.
\<close>

lemma single_loan_lockstep:
  assumes rnd: "rounding rnd" and nm: "loan_name l \<noteq> []" and rate: "0 \<le> annual_interest_rate l"
  shows "bals (loan_name l) = Some s \<Longrightarrow> 0 \<le> s \<Longrightarrow> s \<le> max b 0 \<Longrightarrow> rnd b = b
      \<Longrightarrow> rnd Tb = Tb \<Longrightarrow> Ts \<le> Tb
      \<Longrightarrow> 0 < rnd (monthly_emi l - rnd (b * monthly_rate_fl rnd (annual_interest_rate l)))
      \<Longrightarrow> fst (snd (snd (strategy_loop_fl rnd [l] [loan_name l] S (bals, {||}, Ts, m))))
           \<le> fst (snd (loan_interest_loop_fl rnd (monthly_rate_fl rnd (annual_interest_rate l))
                          (monthly_emi l) (b, Tb, m)))"
proof (induction "nat (600 - m)" arbitrary: bals s b Tb Ts m rule: less_induct)
  case less
  let ?r = "monthly_rate_fl rnd (annual_interest_rate l)"
  let ?e = "monthly_emi l"
  let ?c = "rnd (1 / 100)"
  let ?S = "\<lambda>st. fst (snd (snd (strategy_loop_fl rnd [l] [loan_name l] S st)))"
  let ?B = "\<lambda>st. fst (snd (loan_interest_loop_fl rnd ?r ?e st))"
  from rnd rate have r0: "0 \<le> ?r" by (rule monthly_rate_fl_nonneg)
  from rnd have c0: "0 \<le> ?c" by (simp add: rounding_nonneg)
  note grows = loan_interest_loop_fl_total_grows [OF rnd r0]
  show ?case
  proof (cases "m < 600")
    case False
    then show ?thesis using less.prems(6)
      by (simp add: strategy_loop_fl_stop loan_interest_loop_fl_stop)
  next
    case m: True
    note month = single_loan_month [of l m bals s rnd S Ts, OF nm m less.prems(1)]
    show ?thesis
    proof (cases "s \<le> ?c")
      case True
      with month have "?S (bals, {||}, Ts, m) = Ts" by simp
      also have "Ts \<le> Tb" by fact
      also have "Tb \<le> ?B (b, Tb, m)" by (rule grows) fact
      finally show ?thesis .
    next
      case False
      with c0 less.prems(3) have sb: "s \<le> b" "?c < b" by auto
      define ib where "ib = rnd (b * ?r)"
      define pb where "pb = rnd (?e - ib)"
      define b' where "b' = rnd (b - pb)"
      define Tb' where "Tb' = rnd (Tb + ib)"
      define i where "i = rnd (s * ?r)"
      define ps where "ps = rnd (?e - i)"
      define nb where "nb = rnd (s - min ps s)"
      define nb' where "nb' = (if S > 0 \<and> nb > ?c then rnd (nb - min S nb) else nb)"
      define Ts' where "Ts' = rnd (Ts + i)"
      have pb: "0 < pb" using less.prems(7) by (simp add: pb_def ib_def)
      have base: "?B (b, Tb, m) = ?B (b', Tb', m + 1)"
        using sb m pb by (simp add: loan_interest_loop_fl_continue b'_def Tb'_def pb_def ib_def)
      have i_le: "i \<le> ib"
        unfolding i_def ib_def using sb r0 by (intro rounding_mono [OF rnd] mult_right_mono)
      have T_le: "Ts' \<le> Tb'"
        unfolding Ts'_def Tb'_def using i_le less.prems(6) by (intro rounding_mono [OF rnd]) simp
      have p_le: "pb \<le> ps"
        unfolding pb_def ps_def using i_le by (intro rounding_mono [OF rnd]) simp
      have idb: "rnd b' = b'" "rnd Tb' = Tb'"
        by (simp_all add: b'_def Tb'_def rounding_idem [OF rnd])
      have b'_le: "b' \<le> b"
        unfolding b'_def using pb less.prems(4) rounding_mono [OF rnd, of "b - pb" b] by simp
      have nb0: "0 \<le> nb"
        unfolding nb_def by (intro rounding_nonneg [OF rnd]) simp
      have nb_le: "nb \<le> max b' 0"
      proof (cases "ps \<le> s")
        case True
        then have "nb = rnd (s - ps)" by (simp add: nb_def)
        also have "\<dots> \<le> b'"
          unfolding b'_def using sb p_le by (intro rounding_mono [OF rnd]) simp
        finally show ?thesis by simp
      next
        case False
        then have "nb = 0" by (simp add: nb_def rounding_zero [OF rnd])
        then show ?thesis by simp
      qed
      have idn: "rnd nb = nb" by (simp add: nb_def rounding_idem [OF rnd])
      have nb'0: "0 \<le> nb'"
        unfolding nb'_def using nb0 by (auto intro!: rounding_nonneg [OF rnd])
      have nb'_le: "nb' \<le> nb"
        unfolding nb'_def using idn nb0 rounding_mono [OF rnd, of "nb - min S nb" nb] by auto
      have pos': "0 < rnd (?e - rnd (b' * ?r))"
      proof -
        have "rnd (b' * ?r) \<le> ib"
          unfolding ib_def using b'_le r0 by (intro rounding_mono [OF rnd] mult_right_mono)
        then have "pb \<le> rnd (?e - rnd (b' * ?r))"
          unfolding pb_def by (intro rounding_mono [OF rnd]) simp
        with pb show ?thesis by simp
      qed
      from False month have step: "strategy_loop_fl rnd [l] [loan_name l] S (bals, {||}, Ts, m) =
          (if nb' \<le> ?c then (bals(loan_name l \<mapsto> max 0 nb'), {|loan_name l|}, Ts', m + 1)
           else strategy_loop_fl rnd [l] [loan_name l] S
                  (bals(loan_name l \<mapsto> max 0 nb'), {||}, Ts', m + 1))"
        by (simp add: Let_def nb'_def nb_def ps_def i_def Ts'_def)
      show ?thesis
      proof (cases "nb' \<le> ?c")
        case True
        with step have "?S (bals, {||}, Ts, m) = Ts'" by simp
        also note T_le
        also have "Tb' \<le> ?B (b', Tb', m + 1)" by (rule grows) (rule idb)
        finally show ?thesis by (simp add: base)
      next
        case False
        from m have "nat (600 - (m + 1)) < nat (600 - m)" by simp
        from less.hyps [OF this, of "bals(loan_name l \<mapsto> max 0 nb')" "max 0 nb'" b' Tb' Ts']
        have "?S (bals(loan_name l \<mapsto> max 0 nb'), {||}, Ts', m + 1) \<le> ?B (b', Tb', m + 1)"
          using nb'0 nb'_le nb_le idb T_le pos' by simp
        with False step base show ?thesis by simp
      qed
    qed
  qed
qed

lemma single_loan_strategy_le_baseline:
  assumes "rounding rnd" "valid_loan l" "rnd (outstanding_balance l) = outstanding_balance l"
    "0 < rnd (monthly_emi l
               - rnd (outstanding_balance l * monthly_rate_fl rnd (annual_interest_rate l)))"
  shows "calculateStrategyInterest_fl rnd [l] [loan_name l] S
           \<le> calculateLoanInterest_fl rnd (outstanding_balance l) (annual_interest_rate l)
                (monthly_emi l)"
proof -
  from assms(2) have v: "loan_name l \<noteq> []" "0 \<le> annual_interest_rate l"
    "0 \<le> outstanding_balance l"
    by (simp_all add: valid_loan_def)
  have "fst (snd (snd (strategy_loop_fl rnd [l] [loan_name l] S
                         (initial_balances [l], {||}, 0, 0))))
          \<le> fst (snd (loan_interest_loop_fl rnd (monthly_rate_fl rnd (annual_interest_rate l))
                         (monthly_emi l) (outstanding_balance l, 0, 0)))"
    by (rule single_loan_lockstep [OF assms(1) v(1,2), where s = "outstanding_balance l"])
       (use assms v in \<open>simp_all add: initial_balances_def rounding_zero\<close>)
  with assms(1) show ?thesis
    unfolding calculateStrategyInterest_fl_def calculateLoanInterest_fl_def Let_def
    by (rule cents_fl_mono)
qed


text \<open>
  C1, as amended. \<open>estimated_interest_saved\<close> is not always non-negative, as the
  three portfolios above show. For a single loan whose balance is a value of the
  arithmetic and whose EMI exceeds the first month's interest, that is, the principal
  component \<^verbatim>\<open>monthlyEMI - outstandingBalance * monthlyRate\<close> of the first month is
  positive as the program computes it, the simulated interest of the recommended
  strategy is at most the baseline interest and \<open>estimated_interest_saved\<close> is
  non-negative, whatever the rounding of the arithmetic.
\<close>

theorem single_loan_saving_nonneg:
  assumes "rounding rnd" "optimizeDebtRepayment_fl rnd d = Inr res" "loans d = [l]"
    "rnd (outstanding_balance l) = outstanding_balance l"
    "0 < rnd (monthly_emi l
               - rnd (outstanding_balance l * monthly_rate_fl rnd (annual_interest_rate l)))"
  shows "calculateStrategyInterest_fl rnd (loans d)
           (if recommended_strategy res = Avalanche then avalanche_order res
            else snowball_order res) (surplus_of d)
           \<le> calculateBaselineInterest_fl rnd (loans d)
       \<and> 0 \<le> estimated_interest_saved res"
proof -
  from assms(2) have "valid_debt_input d"
    using optimize_fl_returns_iff by blast
  with assms(3) have v: "valid_loan l" by (simp add: valid_debt_input_def)
  let ?s = "calculateStrategyInterest_fl rnd [l] [loan_name l] (surplus_of d)"
  let ?b = "calculateLoanInterest_fl rnd (outstanding_balance l) (annual_interest_rate l)
              (monthly_emi l)"
  have le: "?s \<le> ?b"
    by (rule single_loan_strategy_le_baseline [OF assms(1) v assms(4,5)])
  have b: "calculateBaselineInterest_fl rnd [l] = ?b"
    by (simp add: calculateBaselineInterest_fl_def calculateLoanInterest_fl_def Let_def
          rounding_idem [OF assms(1)])
  from le have "0 \<le> rnd (?b - ?s)" by (intro rounding_nonneg [OF assms(1)]) simp
  then have "0 \<le> rnd (Math_round (rnd (rnd (?b - ?s) * 100)) / 100)"
    by (rule cents_fl_nonneg [OF assms(1)])
  with assms(2,3) v le b show ?thesis
    by (auto simp: optimizeDebtRepayment_fl_def Let_def single_loan_orders surplus_of_def
          invalid_loan_iff split: if_splits)
qed


text \<open>A loan of 1000 at 12 percent with EMI 600 and a surplus of 100, in double precision.\<close>

lemma single_loan_roundings:
  "binary64 (1 / 100) = 5764607523034235 / 576460752303423488"
  "binary64 (1 / 20) = 3602879701896397 / 72057594037927936"
  "binary64 (26569956580783689009723836769239 / 40564819207303340847894502572032) = 2949857755927675 / 4503599627370496"
  "binary64 1 = 1"
  "binary64 (893514166070306425 / 288230376151711744) = 6980579422424269 / 2251799813685248"
  "binary64 (1181744542222018175 / 288230376151711744) = 2308094809027379 / 562949953421312"
  "binary64 10 = 10"
  "binary64 (720575940379279375 / 72057594037927936) = 10"
  "binary64 (131 / 10) = 7374644389819187 / 562949953421312"
  "binary64 (29498577559276749 / 2251799813685248) = 7374644389819187 / 562949953421312"
  "binary64 (7937594343240499 / 562949953421312) = 7937594343240499 / 562949953421312"
  "binary64 (141 / 10) = 7937594343240499 / 562949953421312"
  "binary64 100 = 100"
  "binary64 (1635193692828467 / 8796093022208) = 1635193692828467 / 8796093022208"
  "binary64 310 = 310"
  "binary64 410 = 410"
  "binary64 590 = 590"
  "binary64 (335461877243759821 / 562949953421312) = 5241591831933747 / 8796093022208"
  "binary64 (1344099308788724531 / 2251799813685248) = 5250387924955955 / 8796093022208"
  "binary64 1000 = 1000"
  "binary64 (184366109745479675 / 140737488355328) = 1310"
  "binary64 (198439858581012475 / 140737488355328) = 1410"
  by (simp_all add: binary64_eval)

lemma single_loan_parts:
  "calculateStrategyInterest_fl binary64
     [\<lparr>loan_name = ''A'', outstanding_balance = 1000, annual_interest_rate = 12,
                monthly_emi = 600\<rparr>]
     [''A''] 100 = 7374644389819187 / 562949953421312"
  "calculateBaselineInterest_fl binary64
     [\<lparr>loan_name = ''A'', outstanding_balance = 1000, annual_interest_rate = 12,
                monthly_emi = 600\<rparr>]
     = 7937594343240499 / 562949953421312"
   apply (simp add: strategy_fl_eval binary64_minus single_loan_roundings)
  apply (simp add: baseline_fl_eval binary64_minus single_loan_roundings)
  done

lemma example_single_loan:
  "optimizeDebtRepayment_fl binary64
     \<lparr>loans = [\<lparr>loan_name = ''A'', outstanding_balance = 1000, annual_interest_rate = 12,
                monthly_emi = 600\<rparr>],
      monthly_surplus = Some 100, risk_tolerance = None\<rparr>
   = Inr \<lparr>avalanche_order = [''A''], snowball_order = [''A''],
          recommended_strategy = Avalanche, reason = ModestAvalancheMedium 0,
          estimated_interest_saved = 1\<rparr>"
  by (simp add: optimizeDebtRepayment_fl_def decide_fl_def invalid_loan_def single_loan_orders
        single_loan_parts Let_def Math_round_def binary64_minus single_loan_roundings)

theorem single_loan_saving_nonneg_witness:
  "rounding binary64
   \<and> optimizeDebtRepayment_fl binary64
     \<lparr>loans = [\<lparr>loan_name = ''A'', outstanding_balance = 1000, annual_interest_rate = 12,
                monthly_emi = 600\<rparr>],
      monthly_surplus = Some 100, risk_tolerance = None\<rparr>
   = Inr \<lparr>avalanche_order = [''A''], snowball_order = [''A''],
          recommended_strategy = Avalanche, reason = ModestAvalancheMedium 0,
          estimated_interest_saved = 1\<rparr>
   \<and> binary64 1000 = 1000
   \<and> 0 < binary64 (600 - binary64 (1000 * monthly_rate_fl binary64 12))
   \<and> calculateStrategyInterest_fl binary64
       [\<lparr>loan_name = ''A'', outstanding_balance = 1000, annual_interest_rate = 12,
                monthly_emi = 600\<rparr>]
       [''A''] 100
     \<le> calculateBaselineInterest_fl binary64
       [\<lparr>loan_name = ''A'', outstanding_balance = 1000, annual_interest_rate = 12,
                monthly_emi = 600\<rparr>]
   \<and> (0::real) \<le> 1"
  using single_loan_saving_nonneg [OF rounding_binary64 example_single_loan]
    example_single_loan rounding_binary64
  by (simp add: surplus_of_def monthly_rate_fl_def single_loan_roundings)


text \<open>
  The first of the portfolios with a negative saving, a loan of 1000 at 12 percent with
  EMI 5 and a surplus of 2000, gives the same result in double precision.
\<close>

lemma small_emi_roundings:
  "binary64 (1 / 100) = 5764607523034235 / 576460752303423488"
  "binary64 (1 / 20) = 3602879701896397 / 72057594037927936"
  "binary64 (18014398509481985 / 36028797018963968) = 1 / 2"
  "binary64 1 = 1"
  "binary64 5 = 5"
  "binary64 10 = 10"
  "binary64 (720575940379279375 / 72057594037927936) = 10"
  "binary64 995 = 995"
  "binary64 1000 = 1000"
  "binary64 1005 = 1005"
  by (simp_all add: binary64_eval)

lemma small_emi_binary64_parts:
  "calculateStrategyInterest_fl binary64
     [\<lparr>loan_name = ''A'', outstanding_balance = 1000, annual_interest_rate = 12,
                monthly_emi = 5\<rparr>]
     [''A''] 2000 = 10"
  "calculateBaselineInterest_fl binary64
     [\<lparr>loan_name = ''A'', outstanding_balance = 1000, annual_interest_rate = 12,
                monthly_emi = 5\<rparr>]
     = 0"
   apply (simp add: strategy_fl_eval binary64_minus small_emi_roundings)
  apply (simp add: baseline_fl_eval binary64_minus small_emi_roundings)
  done

lemma example_small_emi_binary64:
  "optimizeDebtRepayment_fl binary64
     \<lparr>loans = [\<lparr>loan_name = ''A'', outstanding_balance = 1000, annual_interest_rate = 12,
                monthly_emi = 5\<rparr>],
      monthly_surplus = Some 2000, risk_tolerance = None\<rparr>
   = Inr \<lparr>avalanche_order = [''A''], snowball_order = [''A''],
          recommended_strategy = Avalanche, reason = ModestAvalancheMedium 0,
          estimated_interest_saved = - 10\<rparr>"
  by (simp add: optimizeDebtRepayment_fl_def decide_fl_def invalid_loan_def single_loan_orders
        small_emi_binary64_parts Let_def Math_round_def binary64_minus small_emi_roundings)


end
